theory Spec2Isabelle
  imports Complex_Main
begin

section \<open>JavaScript numbers\<close>

text \<open>
  The analyzer computes on JavaScript \<open>number\<close>s, the binary64 numbers of IEEE 754. A
  number is a finite value \<open>Num r\<close> (where \<open>Num 0\<close> is the positive zero), the negative
  zero, an infinity or NaN. Every arithmetic operation computes the exact real result and
  rounds it with \<open>fl\<close> to the nearest binary64 number, ties to even, with overflow to
  an infinity and gradual underflow down to a signed zero; on the special values it
  follows ECMAScript. So a sum that is not representable, a division by zero, a
  comparison with NaN or an inverse cosine outside its domain gives here what it gives in
  the program.
\<close>

datatype jsnum = Num real | NegZero | PosInf | NegInf | NaN

fun signbit :: "jsnum \<Rightarrow> bool" where
  "signbit (Num r) = (r < 0)"
| "signbit NegZero = True"
| "signbit PosInf = False"
| "signbit NegInf = True"
| "signbit NaN = False"

fun is_zero :: "jsnum \<Rightarrow> bool" where
  "is_zero (Num r) = (r = 0)"
| "is_zero NegZero = True"
| "is_zero _ = False"

fun is_inf :: "jsnum \<Rightarrow> bool" where
  "is_inf PosInf = True"
| "is_inf NegInf = True"
| "is_inf _ = False"

text \<open>The real value of a finite number (0 for the others, where it is never used).\<close>

fun mag :: "jsnum \<Rightarrow> real" where
  "mag (Num r) = r"
| "mag _ = 0"

fun zero_signed :: "bool \<Rightarrow> jsnum" where
  "zero_signed True = NegZero"
| "zero_signed False = Num 0"

fun inf_signed :: "bool \<Rightarrow> jsnum" where
  "inf_signed True = NegInf"
| "inf_signed False = PosInf"

subsection \<open>Rounding to binary64\<close>

text \<open>
  \<open>pow2 k\<close> is \<open>2\<^sup>k\<close> for an integer \<open>k\<close>. The exponent of a positive real \<open>a\<close> is the
  \<open>e\<close> with \<open>2\<^sup>e \<le> a < 2\<^sup>e\<^sup>+\<^sup>1\<close>, found by counting up from the least normal exponent
  \<open>-1022\<close> (which subnormal values keep) and at most \<open>1024\<close>. A binary64 number of
  exponent \<open>e\<close> is an integer multiple of \<open>2\<^sup>e\<^sup>-\<^sup>5\<^sup>2\<close>: \<open>fl\<close> rounds the quotient by that unit
  to the nearest integer, a tie to the even one. A result of magnitude \<open>2\<^sup>1\<^sup>0\<^sup>2\<^sup>4\<close> is an
  overflow; a result that rounds to zero keeps the sign of the exact value.
\<close>

definition pow2 :: "int \<Rightarrow> real" where
  "pow2 k = (if 0 \<le> k then 2 ^ nat k else 1 / 2 ^ nat (- k))"

fun exponent_from :: "nat \<Rightarrow> int \<Rightarrow> real \<Rightarrow> int" where
  "exponent_from 0 e a = e"
| "exponent_from (Suc n) e a = (if pow2 (e + 1) \<le> a then exponent_from n (e + 1) a else e)"

definition exponent :: "real \<Rightarrow> int" where
  "exponent a = exponent_from 2046 (- 1022) a"

definition round_even :: "real \<Rightarrow> int" where
  "round_even q =
     (let f = \<lfloor>q\<rfloor>; d = q - of_int f
      in if d < 1 / 2 then f else if 1 / 2 < d then f + 1 else if even f then f else f + 1)"

definition fl :: "real \<Rightarrow> jsnum" where
  "fl x =
     (if x = 0 then Num 0
      else let u = pow2 (exponent \<bar>x\<bar> - 52);
               y = of_int (round_even (x / u)) * u
           in if pow2 1024 \<le> \<bar>y\<bar> then inf_signed (x < 0)
              else if y = 0 then zero_signed (x < 0)
              else Num y)"

text \<open>A numeric literal of the source denotes the binary64 number nearest to it. The
  small integers of the arithmetic (\<open>0\<close>, \<open>2\<close>, \<open>25\<close>, \<open>100\<close>, \<open>180\<close>) are binary64
  numbers and are written as they are.\<close>

definition lit :: "real \<Rightarrow> jsnum" where
  "lit x = fl x"

subsection \<open>Arithmetic and comparisons\<close>

text \<open>\<open>a + b\<close>: an exact sum of zero is the positive zero, unless both operands are
  the negative zero.\<close>

fun js_add :: "jsnum \<Rightarrow> jsnum \<Rightarrow> jsnum" where
  "js_add NaN _ = NaN"
| "js_add _ NaN = NaN"
| "js_add PosInf NegInf = NaN"
| "js_add NegInf PosInf = NaN"
| "js_add PosInf _ = PosInf"
| "js_add _ PosInf = PosInf"
| "js_add NegInf _ = NegInf"
| "js_add _ NegInf = NegInf"
| "js_add NegZero NegZero = NegZero"
| "js_add NegZero (Num b) = fl b"
| "js_add (Num a) NegZero = fl a"
| "js_add (Num a) (Num b) = fl (a + b)"

fun js_neg :: "jsnum \<Rightarrow> jsnum" where
  "js_neg (Num r) = (if r = 0 then NegZero else Num (- r))"
| "js_neg NegZero = Num 0"
| "js_neg PosInf = NegInf"
| "js_neg NegInf = PosInf"
| "js_neg NaN = NaN"

text \<open>\<open>a - b\<close> is \<open>a + (-b)\<close>.\<close>

definition js_sub :: "jsnum \<Rightarrow> jsnum \<Rightarrow> jsnum" where
  "js_sub a b = js_add a (js_neg b)"

text \<open>\<open>a * b\<close>: infinity times zero is NaN; the sign of a zero or infinite product is
  the exclusive or of the operands' signs.\<close>

definition js_mul :: "jsnum \<Rightarrow> jsnum \<Rightarrow> jsnum" where
  "js_mul a b =
     (if a = NaN \<or> b = NaN then NaN
      else if (is_inf a \<and> is_zero b) \<or> (is_zero a \<and> is_inf b) then NaN
      else if is_inf a \<or> is_inf b then inf_signed (signbit a \<noteq> signbit b)
      else if mag a * mag b = 0 then zero_signed (signbit a \<noteq> signbit b)
      else fl (mag a * mag b))"

text \<open>\<open>a / b\<close>: \<open>0 / 0\<close> and \<open>\<infinity> / \<infinity>\<close> are NaN, any other division by zero is an
  infinity; nothing raises.\<close>

definition js_div :: "jsnum \<Rightarrow> jsnum \<Rightarrow> jsnum" where
  "js_div a b =
     (if a = NaN \<or> b = NaN then NaN
      else if is_inf a \<and> is_inf b then NaN
      else if is_zero a \<and> is_zero b then NaN
      else if is_inf a \<or> is_zero b then inf_signed (signbit a \<noteq> signbit b)
      else if is_inf b \<or> is_zero a then zero_signed (signbit a \<noteq> signbit b)
      else fl (mag a / mag b))"

text \<open>The position of a number among the extended reals, for the comparisons.\<close>

fun lvl :: "jsnum \<Rightarrow> int" where
  "lvl NegInf = - 1"
| "lvl PosInf = 1"
| "lvl _ = 0"

text \<open>\<open>a < b\<close> and \<open>a > b\<close>: false as soon as one side is NaN; the two zeros are equal.\<close>

definition js_lt :: "jsnum \<Rightarrow> jsnum \<Rightarrow> bool" where
  "js_lt a b = (a \<noteq> NaN \<and> b \<noteq> NaN \<and> (lvl a < lvl b \<or> (lvl a = lvl b \<and> mag a < mag b)))"

definition js_gt :: "jsnum \<Rightarrow> jsnum \<Rightarrow> bool" where
  "js_gt a b = js_lt b a"

subsection \<open>The Math object\<close>

text \<open>
  \<open>Math.abs\<close>, \<open>Math.max\<close> and \<open>Math.min\<close> are exact. \<open>Math.sqrt\<close> is correctly
  rounded. ECMAScript leaves \<open>Math.pow\<close> (also written \<open>x ** 2\<close>), \<open>Math.acos\<close> and
  \<open>Math.atan2\<close> to an approximation of the engine; they are taken correctly rounded.
  \<open>Math.PI\<close> is the binary64 number nearest to \<open>\<pi>\<close>, \<open>3.141592653589793\<close>, and the values
  of \<open>Math.atan2\<close> on the axes and diagonals are that number, its half, its quarter
  and three quarters of it, which are the binary64 numbers nearest to \<open>\<pi>/2\<close>, \<open>\<pi>/4\<close> and
  \<open>3\<pi>/4\<close>.
\<close>

fun Math_abs :: "jsnum \<Rightarrow> jsnum" where
  "Math_abs (Num r) = Num \<bar>r\<bar>"
| "Math_abs NegZero = Num 0"
| "Math_abs PosInf = PosInf"
| "Math_abs NegInf = PosInf"
| "Math_abs NaN = NaN"

fun Math_sqrt :: "jsnum \<Rightarrow> jsnum" where
  "Math_sqrt (Num r) = (if r < 0 then NaN else fl (sqrt r))"
| "Math_sqrt NegZero = NegZero"
| "Math_sqrt PosInf = PosInf"
| "Math_sqrt NegInf = NaN"
| "Math_sqrt NaN = NaN"

fun Math_pow2 :: "jsnum \<Rightarrow> jsnum" where
  "Math_pow2 (Num r) = fl (r\<^sup>2)"
| "Math_pow2 NegZero = Num 0"
| "Math_pow2 PosInf = PosInf"
| "Math_pow2 NegInf = PosInf"
| "Math_pow2 NaN = NaN"

definition Math_max :: "jsnum \<Rightarrow> jsnum \<Rightarrow> jsnum" where
  "Math_max a b =
     (if a = NaN \<or> b = NaN then NaN
      else if js_lt a b then b
      else if js_lt b a then a
      else if a = NegZero then b else a)"

definition Math_min :: "jsnum \<Rightarrow> jsnum \<Rightarrow> jsnum" where
  "Math_min a b =
     (if a = NaN \<or> b = NaN then NaN
      else if js_lt a b then a
      else if js_lt b a then b
      else if a = NegZero then a else b)"

definition PI64 :: real where
  "PI64 = 884279719003555 / 281474976710656"

definition Math_PI :: jsnum where
  "Math_PI = Num PI64"

fun Math_acos :: "jsnum \<Rightarrow> jsnum" where
  "Math_acos (Num r) = (if r < - 1 \<or> 1 < r then NaN else fl (arccos r))"
| "Math_acos NegZero = Num (PI64 / 2)"
| "Math_acos _ = NaN"

definition Math_atan2 :: "jsnum \<Rightarrow> jsnum \<Rightarrow> jsnum" where
  "Math_atan2 y x =
     (if y = NaN \<or> x = NaN then NaN
      else if y = PosInf then
        (if x = PosInf then Num (PI64 / 4) else if x = NegInf then Num (3 * PI64 / 4)
         else Num (PI64 / 2))
      else if y = NegInf then
        (if x = PosInf then Num (- (PI64 / 4)) else if x = NegInf then Num (- (3 * PI64 / 4))
         else Num (- (PI64 / 2)))
      else if is_zero y then
        (if signbit x then (if signbit y then Num (- PI64) else Num PI64)
         else zero_signed (signbit y))
      else if x = PosInf then zero_signed (signbit y)
      else if x = NegInf then (if signbit y then Num (- PI64) else Num PI64)
      else if is_zero x then (if signbit y then Num (- (PI64 / 2)) else Num (PI64 / 2))
      else if 0 < mag x then fl (arctan (mag y / mag x))
      else if 0 < mag y then fl (arctan (mag y / mag x) + pi)
      else fl (arctan (mag y / mag x) - pi))"

section \<open>The data of the analyzer\<close>

text \<open>
  \<open>KeyPoint\<close>, \<open>PoseData\<close> and \<open>FormFeedback\<close> are the three interfaces of
  \<open>components/FormAnalyzer.tsx\<close>. An optional property is an \<open>option\<close>. The
  \<open>keypoints\<close> object is a partial map from landmark names, and it is optional here
  although the interface requires it, because \<open>analyze\<close> tests for its absence at run
  time.
\<close>

record KeyPoint =
  kp_x :: jsnum
  kp_y :: jsnum
  kp_z :: "jsnum option"
  kp_visibility :: "jsnum option"

record PoseData =
  keypoints :: "(string \<rightharpoonup> KeyPoint) option"
  timestamp :: jsnum

record FormFeedback =
  score :: jsnum
  feedback :: "string list"
  errors :: "string list"
  repCompleted :: "bool option"
  details :: "(string \<times> jsnum) list option"

text \<open>Reading a property of \<open>undefined\<close> raises a \<open>TypeError\<close>; nothing else in the
  analyzer can raise.\<close>

datatype js_error = TypeError

section \<open>Helper methods\<close>

definition calculateAngle :: "KeyPoint \<Rightarrow> KeyPoint \<Rightarrow> KeyPoint \<Rightarrow> jsnum" where
  "calculateAngle point1 point2 point3 =
     (let vector1_x = js_sub (kp_x point1) (kp_x point2);
          vector1_y = js_sub (kp_y point1) (kp_y point2);
          vector2_x = js_sub (kp_x point3) (kp_x point2);
          vector2_y = js_sub (kp_y point3) (kp_y point2);
          dot = js_add (js_mul vector1_x vector2_x) (js_mul vector1_y vector2_y);
          mag1 = Math_sqrt (js_add (Math_pow2 vector1_x) (Math_pow2 vector1_y));
          mag2 = Math_sqrt (js_add (Math_pow2 vector2_x) (Math_pow2 vector2_y));
          cos = js_div dot (js_mul mag1 mag2)
      in js_div (js_mul (Math_acos (Math_max (Num (- 1)) (Math_min (Num 1) cos))) (Num 180))
           Math_PI)"


text \<open>\<open>detectBottomPosition\<close>: hips below knees (image y grows downwards). Reading
  \<open>.y\<close> of a landmark that is absent raises.\<close>

definition detectBottomPosition :: "PoseData \<Rightarrow> js_error + bool" where
  "detectBottomPosition poseData =
     (case keypoints poseData of
        None \<Rightarrow> Inl TypeError
      | Some kps \<Rightarrow>
          (case (kps ''leftHip'', kps ''rightHip'', kps ''leftKnee'', kps ''rightKnee'') of
             (Some leftHip, Some rightHip, Some leftKnee, Some rightKnee) \<Rightarrow>
               (let hipHeight = js_div (js_add (kp_y leftHip) (kp_y rightHip)) (Num 2);
                    kneeHeight = js_div (js_add (kp_y leftKnee) (kp_y rightKnee)) (Num 2)
                in Inr (js_gt hipHeight kneeHeight))
           | _ \<Rightarrow> Inl TypeError))"

text \<open>\<open>detectPressMovement\<close> ignores the pose and compares a fresh \<open>Math.random()\<close>
  with 0.8. The value drawn by that call is the binary64 number nearest to the
  parameter \<open>rnd\<close>, a number in \<open>[0, 1)\<close>.\<close>

definition detectPressMovement :: "real \<Rightarrow> PoseData \<Rightarrow> bool" where
  "detectPressMovement rnd poseData = js_gt (lit rnd) (lit 0.8)"

definition detectDeadliftMovement :: "PoseData \<Rightarrow> js_error + bool" where
  "detectDeadliftMovement poseData =
     (case keypoints poseData of
        None \<Rightarrow> Inl TypeError
      | Some kps \<Rightarrow>
          (case (kps ''leftHip'', kps ''rightHip'', kps ''leftShoulder'', kps ''rightShoulder'') of
             (Some leftHip, Some rightHip, Some leftShoulder, Some rightShoulder) \<Rightarrow>
               (let hipCenter_x = js_div (js_add (kp_x leftHip) (kp_x rightHip)) (Num 2);
                    shoulderCenter_x =
                      js_div (js_add (kp_x leftShoulder) (kp_x rightShoulder)) (Num 2);
                    torsoAngle = Math_abs (js_sub shoulderCenter_x hipCenter_x)
                in Inr (js_lt torsoAngle (lit 0.05)))
           | _ \<Rightarrow> Inl TypeError))"

section \<open>The running score and the message lists\<close>

text \<open>
  Each evaluator starts with \<open>score = 100\<close> and two empty arrays \<open>feedback\<close> and
  \<open>errors\<close>, and its rule blocks update the three in turn. The three locals are the
  record \<open>tally\<close>, passed through the blocks.
\<close>

record tally =
  t_score :: jsnum
  t_feedback :: "string list"
  t_errors :: "string list"

definition tally0 :: tally where
  "tally0 = \<lparr>t_score = Num 100, t_feedback = [], t_errors = []\<rparr>"

section \<open>Squat\<close>

definition squat_requiredPoints :: "string list" where
  "squat_requiredPoints =
     [''leftHip'', ''rightHip'', ''leftKnee'', ''rightKnee'', ''leftAnkle'', ''rightAnkle'']"

text \<open>The four metrics of \<open>analyzeSquat\<close>, each with the local constants it is computed
  from, in the order of the source.\<close>

definition squat_depthRatio ::
  "KeyPoint \<Rightarrow> KeyPoint \<Rightarrow> KeyPoint \<Rightarrow> KeyPoint \<Rightarrow> KeyPoint \<Rightarrow> jsnum" where
  "squat_depthRatio leftHip rightHip leftKnee rightKnee leftAnkle =
     (let hipHeight = js_div (js_add (kp_y leftHip) (kp_y rightHip)) (Num 2);
          kneeHeight = js_div (js_add (kp_y leftKnee) (kp_y rightKnee)) (Num 2)
      in js_div (js_sub kneeHeight hipHeight) (js_sub (kp_y leftAnkle) hipHeight))"

definition squat_kneeCollapseRatio ::
  "KeyPoint \<Rightarrow> KeyPoint \<Rightarrow> KeyPoint \<Rightarrow> KeyPoint \<Rightarrow> jsnum" where
  "squat_kneeCollapseRatio leftHip rightHip leftKnee rightKnee =
     (let kneeWidth = Math_abs (js_sub (kp_x rightKnee) (kp_x leftKnee));
          hipWidth = Math_abs (js_sub (kp_x rightHip) (kp_x leftHip))
      in js_div kneeWidth hipWidth)"

definition squat_forwardLean ::
  "KeyPoint \<Rightarrow> KeyPoint \<Rightarrow> KeyPoint \<Rightarrow> KeyPoint \<Rightarrow> jsnum" where
  "squat_forwardLean leftShoulder rightShoulder leftHip rightHip =
     (let shoulderCenter_x = js_div (js_add (kp_x leftShoulder) (kp_x rightShoulder)) (Num 2);
          hipCenter_x = js_div (js_add (kp_x leftHip) (kp_x rightHip)) (Num 2)
      in Math_abs (js_sub shoulderCenter_x hipCenter_x))"

definition squat_asymmetry ::
  "KeyPoint \<Rightarrow> KeyPoint \<Rightarrow> KeyPoint \<Rightarrow> KeyPoint \<Rightarrow> jsnum" where
  "squat_asymmetry leftHip rightHip leftKnee rightKnee =
     (let leftLegLength =
            Math_sqrt (js_add (Math_pow2 (js_sub (kp_x leftKnee) (kp_x leftHip)))
                              (Math_pow2 (js_sub (kp_y leftKnee) (kp_y leftHip))));
          rightLegLength =
            Math_sqrt (js_add (Math_pow2 (js_sub (kp_x rightKnee) (kp_x rightHip)))
                              (Math_pow2 (js_sub (kp_y rightKnee) (kp_y rightHip))))
      in js_div (Math_abs (js_sub leftLegLength rightLegLength))
                (Math_max leftLegLength rightLegLength))"

text \<open>The four rule blocks of \<open>analyzeSquat\<close>.\<close>

definition squat_depth_rule :: "jsnum \<Rightarrow> tally \<Rightarrow> tally" where
  "squat_depth_rule depthRatio t =
     (if js_lt depthRatio (lit 0.1) then
        t\<lparr>t_errors := t_errors t @ [''Squat deeper - hips need to go below knee level''],
          t_score := js_sub (t_score t) (Num 25)\<rparr>
      else if js_lt depthRatio (lit 0.3) then
        t\<lparr>t_feedback := t_feedback t @ [''Good depth! Try to go slightly deeper''],
          t_score := js_sub (t_score t) (Num 5)\<rparr>
      else t\<lparr>t_feedback := t_feedback t @ [''Excellent depth!'']\<rparr>)"

definition squat_knee_rule :: "jsnum \<Rightarrow> tally \<Rightarrow> tally" where
  "squat_knee_rule kneeCollapseRatio t =
     (if js_lt kneeCollapseRatio (lit 0.7) then
        t\<lparr>t_errors := t_errors t @ [''Knees caving in - push knees out over toes''],
          t_score := js_sub (t_score t) (Num 30)\<rparr>
      else if js_lt kneeCollapseRatio (lit 0.85) then
        t\<lparr>t_feedback :=
            t_feedback t @ [''Watch knee alignment - keep them tracking over toes''],
          t_score := js_sub (t_score t) (Num 10)\<rparr>
      else t\<lparr>t_feedback := t_feedback t @ [''Great knee tracking!'']\<rparr>)"

definition squat_lean_rule :: "jsnum \<Rightarrow> tally \<Rightarrow> tally" where
  "squat_lean_rule forwardLean t =
     (if js_gt forwardLean (lit 0.1) then
        t\<lparr>t_errors := t_errors t @ [''Too much forward lean - keep chest up''],
          t_score := js_sub (t_score t) (Num 20)\<rparr>
      else if js_gt forwardLean (lit 0.05) then
        t\<lparr>t_feedback :=
            t_feedback t @ [''Slight forward lean - focus on keeping chest up''],
          t_score := js_sub (t_score t) (Num 5)\<rparr>
      else t\<lparr>t_feedback := t_feedback t @ [''Good upright posture!'']\<rparr>)"

definition squat_symmetry_rule :: "jsnum \<Rightarrow> tally \<Rightarrow> tally" where
  "squat_symmetry_rule asymmetry t =
     (if js_gt asymmetry (lit 0.15) then
        t\<lparr>t_errors := t_errors t @ [''Uneven squat - check your stance and balance''],
          t_score := js_sub (t_score t) (Num 15)\<rparr>
      else t)"

definition analyzeSquat :: "PoseData \<Rightarrow> js_error + FormFeedback" where
  "analyzeSquat poseData =
     (case keypoints poseData of
        None \<Rightarrow> Inl TypeError
      | Some kps \<Rightarrow>
          if \<not> list_all (\<lambda>point. kps point \<noteq> None) squat_requiredPoints then
            Inr \<lparr>score = Num 0,
                 feedback = [''Position yourself so your full body is visible''],
                 errors = [''Incomplete pose detection''],
                 repCompleted = None, details = None\<rparr>
          else
            (case (kps ''leftHip'', kps ''rightHip'', kps ''leftKnee'', kps ''rightKnee'',
                   kps ''leftAnkle'', kps ''rightAnkle'') of
               (Some leftHip, Some rightHip, Some leftKnee, Some rightKnee,
                Some leftAnkle, Some rightAnkle) \<Rightarrow>
                 (let depthRatio = squat_depthRatio leftHip rightHip leftKnee rightKnee leftAnkle;
                      t1 = squat_depth_rule depthRatio tally0;
                      kneeCollapseRatio =
                        squat_kneeCollapseRatio leftHip rightHip leftKnee rightKnee;
                      t2 = squat_knee_rule kneeCollapseRatio t1;
                      forwardLean =
                        (case (kps ''leftShoulder'', kps ''rightShoulder'') of
                           (Some leftShoulder, Some rightShoulder) \<Rightarrow>
                             squat_forwardLean leftShoulder rightShoulder leftHip rightHip
                         | _ \<Rightarrow> Num 0);
                      t3 =
                        (case (kps ''leftShoulder'', kps ''rightShoulder'') of
                           (Some leftShoulder, Some rightShoulder) \<Rightarrow>
                             squat_lean_rule forwardLean t2
                         | _ \<Rightarrow> t2);
                      asymmetry = squat_asymmetry leftHip rightHip leftKnee rightKnee;
                      t4 = squat_symmetry_rule asymmetry t3
                  in case (if js_gt depthRatio (lit 0.2) then detectBottomPosition poseData
                           else Inr False) of
                       Inl e \<Rightarrow> Inl e
                     | Inr rep \<Rightarrow>
                         Inr \<lparr>score = Math_max (Num 0) (t_score t4),
                              feedback = t_feedback t4,
                              errors = t_errors t4,
                              repCompleted = Some rep,
                              details = Some [(''depth'', depthRatio),
                                              (''kneeTracking'', kneeCollapseRatio),
                                              (''forwardLean'', forwardLean),
                                              (''symmetry'', asymmetry)]\<rparr>)
             | _ \<Rightarrow> Inl TypeError))"


section \<open>Bench press\<close>

definition bench_requiredPoints :: "string list" where
  "bench_requiredPoints =
     [''leftShoulder'', ''rightShoulder'', ''leftElbow'', ''rightElbow'',
      ''leftWrist'', ''rightWrist'']"

definition bench_avgElbowAngle ::
  "KeyPoint \<Rightarrow> KeyPoint \<Rightarrow> KeyPoint \<Rightarrow> KeyPoint \<Rightarrow> KeyPoint \<Rightarrow> KeyPoint \<Rightarrow> jsnum" where
  "bench_avgElbowAngle leftShoulder rightShoulder leftElbow rightElbow leftWrist rightWrist =
     (let leftElbowAngle = calculateAngle leftShoulder leftElbow leftWrist;
          rightElbowAngle = calculateAngle rightShoulder rightElbow rightWrist
      in js_div (js_add leftElbowAngle rightElbowAngle) (Num 2))"

definition bench_barDeviation ::
  "KeyPoint \<Rightarrow> KeyPoint \<Rightarrow> KeyPoint \<Rightarrow> KeyPoint \<Rightarrow> jsnum" where
  "bench_barDeviation leftShoulder rightShoulder leftWrist rightWrist =
     (let wristCenter_x = js_div (js_add (kp_x leftWrist) (kp_x rightWrist)) (Num 2);
          shoulderCenter_x = js_div (js_add (kp_x leftShoulder) (kp_x rightShoulder)) (Num 2)
      in Math_abs (js_sub wristCenter_x shoulderCenter_x))"

definition bench_asymmetry ::
  "KeyPoint \<Rightarrow> KeyPoint \<Rightarrow> KeyPoint \<Rightarrow> KeyPoint \<Rightarrow> jsnum" where
  "bench_asymmetry leftShoulder rightShoulder leftWrist rightWrist =
     (let leftArmExtension =
            Math_sqrt (js_add (Math_pow2 (js_sub (kp_x leftWrist) (kp_x leftShoulder)))
                              (Math_pow2 (js_sub (kp_y leftWrist) (kp_y leftShoulder))));
          rightArmExtension =
            Math_sqrt (js_add (Math_pow2 (js_sub (kp_x rightWrist) (kp_x rightShoulder)))
                              (Math_pow2 (js_sub (kp_y rightWrist) (kp_y rightShoulder))))
      in js_div (Math_abs (js_sub leftArmExtension rightArmExtension))
                (Math_max leftArmExtension rightArmExtension))"

definition bench_elbow_rule :: "jsnum \<Rightarrow> tally \<Rightarrow> tally" where
  "bench_elbow_rule avgElbowAngle t =
     (if js_gt avgElbowAngle (lit 100) then
        t\<lparr>t_errors := t_errors t @ [''Elbows too flared - bring them closer to your body''],
          t_score := js_sub (t_score t) (Num 25)\<rparr>
      else if js_gt avgElbowAngle (lit 85) then
        t\<lparr>t_feedback :=
            t_feedback t @ [''Slight elbow flare - try to keep elbows at 45-degree angle''],
          t_score := js_sub (t_score t) (Num 10)\<rparr>
      else t\<lparr>t_feedback := t_feedback t @ [''Good elbow position!'']\<rparr>)"

definition bench_bar_rule :: "jsnum \<Rightarrow> tally \<Rightarrow> tally" where
  "bench_bar_rule barDeviation t =
     (if js_gt barDeviation (lit 0.08) then
        t\<lparr>t_errors := t_errors t @ [''Bar drifting - keep it over your shoulders''],
          t_score := js_sub (t_score t) (Num 20)\<rparr>
      else if js_gt barDeviation (lit 0.04) then
        t\<lparr>t_feedback :=
            t_feedback t @ [''Minor bar drift - focus on straight up and down''],
          t_score := js_sub (t_score t) (Num 5)\<rparr>
      else t\<lparr>t_feedback := t_feedback t @ [''Great bar path!'']\<rparr>)"

definition bench_symmetry_rule :: "jsnum \<Rightarrow> tally \<Rightarrow> tally" where
  "bench_symmetry_rule asymmetry t =
     (if js_gt asymmetry (lit 0.1) then
        t\<lparr>t_errors :=
            t_errors t @ [''Uneven press - check your grip and shoulder position''],
          t_score := js_sub (t_score t) (Num 15)\<rparr>
      else t)"

definition analyzeBench :: "real \<Rightarrow> PoseData \<Rightarrow> js_error + FormFeedback" where
  "analyzeBench rnd poseData =
     (case keypoints poseData of
        None \<Rightarrow> Inl TypeError
      | Some kps \<Rightarrow>
          if \<not> list_all (\<lambda>point. kps point \<noteq> None) bench_requiredPoints then
            Inr \<lparr>score = Num 0,
                 feedback = [''Position camera to show your upper body clearly''],
                 errors = [''Incomplete pose detection''],
                 repCompleted = None, details = None\<rparr>
          else
            (case (kps ''leftShoulder'', kps ''rightShoulder'', kps ''leftElbow'',
                   kps ''rightElbow'', kps ''leftWrist'', kps ''rightWrist'') of
               (Some leftShoulder, Some rightShoulder, Some leftElbow, Some rightElbow,
                Some leftWrist, Some rightWrist) \<Rightarrow>
                 (let avgElbowAngle =
                        bench_avgElbowAngle leftShoulder rightShoulder leftElbow rightElbow
                          leftWrist rightWrist;
                      t1 = bench_elbow_rule avgElbowAngle tally0;
                      barDeviation =
                        bench_barDeviation leftShoulder rightShoulder leftWrist rightWrist;
                      t2 = bench_bar_rule barDeviation t1;
                      asymmetry =
                        bench_asymmetry leftShoulder rightShoulder leftWrist rightWrist;
                      t3 = bench_symmetry_rule asymmetry t2;
                      rep = detectPressMovement rnd poseData
                  in Inr \<lparr>score = Math_max (Num 0) (t_score t3),
                          feedback = t_feedback t3,
                          errors = t_errors t3,
                          repCompleted = Some rep,
                          details = Some [(''elbowAngle'', avgElbowAngle),
                                          (''barPath'', barDeviation),
                                          (''symmetry'', asymmetry)]\<rparr>)
             | _ \<Rightarrow> Inl TypeError))"

section \<open>Deadlift\<close>

definition deadlift_requiredPoints :: "string list" where
  "deadlift_requiredPoints =
     [''leftShoulder'', ''rightShoulder'', ''leftHip'', ''rightHip'',
      ''leftKnee'', ''rightKnee'']"

definition deadlift_backAngle ::
  "KeyPoint \<Rightarrow> KeyPoint \<Rightarrow> KeyPoint \<Rightarrow> KeyPoint \<Rightarrow> jsnum" where
  "deadlift_backAngle leftShoulder rightShoulder leftHip rightHip =
     (let shoulderCenter_x = js_div (js_add (kp_x leftShoulder) (kp_x rightShoulder)) (Num 2);
          shoulderCenter_y = js_div (js_add (kp_y leftShoulder) (kp_y rightShoulder)) (Num 2);
          hipCenter_x = js_div (js_add (kp_x leftHip) (kp_x rightHip)) (Num 2);
          hipCenter_y = js_div (js_add (kp_y leftHip) (kp_y rightHip)) (Num 2)
      in js_div
           (js_mul (Math_atan2 (js_sub shoulderCenter_y hipCenter_y)
                               (js_sub shoulderCenter_x hipCenter_x))
                   (Num 180))
           Math_PI)"

definition deadlift_hipToKneeDistance ::
  "KeyPoint \<Rightarrow> KeyPoint \<Rightarrow> KeyPoint \<Rightarrow> KeyPoint \<Rightarrow> jsnum" where
  "deadlift_hipToKneeDistance leftHip rightHip leftKnee rightKnee =
     (let hipCenter_x = js_div (js_add (kp_x leftHip) (kp_x rightHip)) (Num 2);
          hipCenter_y = js_div (js_add (kp_y leftHip) (kp_y rightHip)) (Num 2);
          kneeCenter_x = js_div (js_add (kp_x leftKnee) (kp_x rightKnee)) (Num 2);
          kneeCenter_y = js_div (js_add (kp_y leftKnee) (kp_y rightKnee)) (Num 2)
      in Math_sqrt (js_add (Math_pow2 (js_sub hipCenter_x kneeCenter_x))
                           (Math_pow2 (js_sub hipCenter_y kneeCenter_y))))"

definition deadlift_kneeOverToes ::
  "KeyPoint \<Rightarrow> KeyPoint \<Rightarrow> KeyPoint \<Rightarrow> KeyPoint \<Rightarrow> jsnum" where
  "deadlift_kneeOverToes leftKnee rightKnee leftAnkle rightAnkle =
     (let kneeCenter_x = js_div (js_add (kp_x leftKnee) (kp_x rightKnee)) (Num 2);
          ankleCenter_x = js_div (js_add (kp_x leftAnkle) (kp_x rightAnkle)) (Num 2)
      in Math_abs (js_sub kneeCenter_x ankleCenter_x))"

definition deadlift_back_rule :: "jsnum \<Rightarrow> tally \<Rightarrow> tally" where
  "deadlift_back_rule backAngle t =
     (if js_gt (Math_abs backAngle) (lit 30) then
        t\<lparr>t_errors := t_errors t @ [''Back rounding detected - keep your back straight''],
          t_score := js_sub (t_score t) (Num 30)\<rparr>
      else if js_gt (Math_abs backAngle) (lit 15) then
        t\<lparr>t_feedback := t_feedback t @ [''Slight back rounding - focus on neutral spine''],
          t_score := js_sub (t_score t) (Num 10)\<rparr>
      else t\<lparr>t_feedback := t_feedback t @ [''Good back position!'']\<rparr>)"

definition deadlift_hinge_rule :: "jsnum \<Rightarrow> tally \<Rightarrow> tally" where
  "deadlift_hinge_rule hipToKneeDistance t =
     (if js_lt hipToKneeDistance (lit 0.1) then
        t\<lparr>t_errors := t_errors t @ [''Not enough hip hinge - push your hips back''],
          t_score := js_sub (t_score t) (Num 25)\<rparr>
      else if js_lt hipToKneeDistance (lit 0.15) then
        t\<lparr>t_feedback :=
            t_feedback t @ [''Good hip hinge, try to push hips back slightly more''],
          t_score := js_sub (t_score t) (Num 5)\<rparr>
      else t\<lparr>t_feedback := t_feedback t @ [''Excellent hip hinge pattern!'']\<rparr>)"

definition deadlift_knee_rule :: "jsnum \<Rightarrow> tally \<Rightarrow> tally" where
  "deadlift_knee_rule kneeOverToes t =
     (if js_gt kneeOverToes (lit 0.08) then
        t\<lparr>t_errors := t_errors t @ [''Knees too far forward - keep shins more vertical''],
          t_score := js_sub (t_score t) (Num 15)\<rparr>
      else t)"

definition analyzeDeadlift :: "PoseData \<Rightarrow> js_error + FormFeedback" where
  "analyzeDeadlift poseData =
     (case keypoints poseData of
        None \<Rightarrow> Inl TypeError
      | Some kps \<Rightarrow>
          if \<not> list_all (\<lambda>point. kps point \<noteq> None) deadlift_requiredPoints then
            Inr \<lparr>score = Num 0,
                 feedback = [''Position yourself so your full body is visible from the side''],
                 errors = [''Incomplete pose detection''],
                 repCompleted = None, details = None\<rparr>
          else
            (case (kps ''leftShoulder'', kps ''rightShoulder'', kps ''leftHip'',
                   kps ''rightHip'', kps ''leftKnee'', kps ''rightKnee'') of
               (Some leftShoulder, Some rightShoulder, Some leftHip, Some rightHip,
                Some leftKnee, Some rightKnee) \<Rightarrow>
                 (let backAngle = deadlift_backAngle leftShoulder rightShoulder leftHip rightHip;
                      t1 = deadlift_back_rule backAngle tally0;
                      hipToKneeDistance =
                        deadlift_hipToKneeDistance leftHip rightHip leftKnee rightKnee;
                      t2 = deadlift_hinge_rule hipToKneeDistance t1;
                      t3 =
                        (case (kps ''leftAnkle'', kps ''rightAnkle'') of
                           (Some leftAnkle, Some rightAnkle) \<Rightarrow>
                             deadlift_knee_rule
                               (deadlift_kneeOverToes leftKnee rightKnee leftAnkle rightAnkle) t2
                         | _ \<Rightarrow> t2)
                  in case detectDeadliftMovement poseData of
                       Inl e \<Rightarrow> Inl e
                     | Inr rep \<Rightarrow>
                         Inr \<lparr>score = Math_max (Num 0) (t_score t3),
                              feedback = t_feedback t3,
                              errors = t_errors t3,
                              repCompleted = Some rep,
                              details = Some [(''backAngle'', Math_abs backAngle),
                                              (''hipHinge'', hipToKneeDistance)]\<rparr>)
             | _ \<Rightarrow> Inl TypeError))"

section \<open>The dispatcher\<close>

text \<open>
  \<open>analyze\<close> receives the movement identifier and the pose, which may be \<open>null\<close>
  (\<open>None\<close>) or lack its \<open>keypoints\<close>; \<open>rnd\<close> is the value that \<open>Math.random()\<close> returns
  if the call reaches it.
\<close>

definition emptyFeedback :: FormFeedback where
  "emptyFeedback =
     \<lparr>score = Num 0, feedback = [], errors = [], repCompleted = None, details = None\<rparr>"

definition analyze :: "real \<Rightarrow> string \<Rightarrow> PoseData option \<Rightarrow> js_error + FormFeedback" where
  "analyze rnd movement poseData =
     (case poseData of
        None \<Rightarrow> Inr emptyFeedback
      | Some pd \<Rightarrow>
          (case keypoints pd of
             None \<Rightarrow> Inr emptyFeedback
           | Some kps \<Rightarrow>
               if movement = ''squat'' then analyzeSquat pd
               else if movement = ''bench'' then analyzeBench rnd pd
               else if movement = ''deadlift'' then analyzeDeadlift pd
               else Inr emptyFeedback))"


section \<open>The specification's vocabulary\<close>

text \<open>The landmark set that each movement requires (the input contract).\<close>

definition requiredPoints :: "string \<Rightarrow> string list" where
  "requiredPoints movement =
     (if movement = ''squat'' then squat_requiredPoints
      else if movement = ''bench'' then bench_requiredPoints
      else if movement = ''deadlift'' then deadlift_requiredPoints
      else [])"

definition hasRequiredPoints :: "string \<Rightarrow> (string \<rightharpoonup> KeyPoint) \<Rightarrow> bool" where
  "hasRequiredPoints movement kps = list_all (\<lambda>point. kps point \<noteq> None) (requiredPoints movement)"

text \<open>
  The threshold rules as the specification words them: a metric below (or above) the
  hard threshold costs the hard penalty, otherwise below (or above) the soft threshold
  the soft penalty, otherwise nothing; a rule without a soft tier has one threshold.
\<close>

definition penalty_below :: "jsnum \<Rightarrow> real \<Rightarrow> real \<Rightarrow> real \<Rightarrow> real \<Rightarrow> real" where
  "penalty_below m hard hp soft sp =
     (if js_lt m (lit hard) then hp else if js_lt m (lit soft) then sp else 0)"

definition penalty_above :: "jsnum \<Rightarrow> real \<Rightarrow> real \<Rightarrow> real \<Rightarrow> real \<Rightarrow> real" where
  "penalty_above m hard hp soft sp =
     (if js_gt m (lit hard) then hp else if js_gt m (lit soft) then sp else 0)"

definition penalty_over :: "jsnum \<Rightarrow> real \<Rightarrow> real \<Rightarrow> real" where
  "penalty_over m thr p = (if js_gt m (lit thr) then p else 0)"

text \<open>The sum of the penalties of the rules that a frame triggers: depth, knee valgus,
  forward lean (only with both shoulders) and leg symmetry for the squat.\<close>

definition squat_penalties :: "(string \<rightharpoonup> KeyPoint) \<Rightarrow> real option" where
  "squat_penalties kps =
     (case (kps ''leftHip'', kps ''rightHip'', kps ''leftKnee'', kps ''rightKnee'',
            kps ''leftAnkle'', kps ''rightAnkle'') of
        (Some leftHip, Some rightHip, Some leftKnee, Some rightKnee,
         Some leftAnkle, Some rightAnkle) \<Rightarrow>
          Some (penalty_below (squat_depthRatio leftHip rightHip leftKnee rightKnee leftAnkle)
                  0.1 25 0.3 5
              + penalty_below (squat_kneeCollapseRatio leftHip rightHip leftKnee rightKnee)
                  0.7 30 0.85 10
              + (case (kps ''leftShoulder'', kps ''rightShoulder'') of
                   (Some leftShoulder, Some rightShoulder) \<Rightarrow>
                     penalty_above (squat_forwardLean leftShoulder rightShoulder leftHip rightHip)
                       0.1 20 0.05 5
                 | _ \<Rightarrow> 0)
              + penalty_over (squat_asymmetry leftHip rightHip leftKnee rightKnee) 0.15 15)
      | _ \<Rightarrow> None)"

text \<open>Elbow angle, bar path and arm symmetry for the bench press.\<close>

definition bench_penalties :: "(string \<rightharpoonup> KeyPoint) \<Rightarrow> real option" where
  "bench_penalties kps =
     (case (kps ''leftShoulder'', kps ''rightShoulder'', kps ''leftElbow'',
            kps ''rightElbow'', kps ''leftWrist'', kps ''rightWrist'') of
        (Some leftShoulder, Some rightShoulder, Some leftElbow, Some rightElbow,
         Some leftWrist, Some rightWrist) \<Rightarrow>
          Some (penalty_above
                  (bench_avgElbowAngle leftShoulder rightShoulder leftElbow rightElbow
                     leftWrist rightWrist) 100 25 85 10
              + penalty_above (bench_barDeviation leftShoulder rightShoulder leftWrist rightWrist)
                  0.08 20 0.04 5
              + penalty_over (bench_asymmetry leftShoulder rightShoulder leftWrist rightWrist)
                  0.1 15)
      | _ \<Rightarrow> None)"

text \<open>Back angle, hip hinge and knee-over-toe (only with both ankles) for the deadlift.\<close>

definition deadlift_back_penalty :: "KeyPoint \<Rightarrow> KeyPoint \<Rightarrow> KeyPoint \<Rightarrow> KeyPoint \<Rightarrow> real" where
  "deadlift_back_penalty leftShoulder rightShoulder leftHip rightHip =
     penalty_above (Math_abs (deadlift_backAngle leftShoulder rightShoulder leftHip rightHip))
       30 30 15 10"

definition deadlift_other_penalties ::
  "(string \<rightharpoonup> KeyPoint) \<Rightarrow> KeyPoint \<Rightarrow> KeyPoint \<Rightarrow> KeyPoint \<Rightarrow> KeyPoint \<Rightarrow> real" where
  "deadlift_other_penalties kps leftHip rightHip leftKnee rightKnee =
     penalty_below (deadlift_hipToKneeDistance leftHip rightHip leftKnee rightKnee)
       0.1 25 0.15 5
     + (case (kps ''leftAnkle'', kps ''rightAnkle'') of
          (Some leftAnkle, Some rightAnkle) \<Rightarrow>
            penalty_over (deadlift_kneeOverToes leftKnee rightKnee leftAnkle rightAnkle) 0.08 15
        | _ \<Rightarrow> 0)"



text \<open>The result for an incomplete pose: it depends on the movement only.\<close>

definition incompleteFeedback :: "string \<Rightarrow> FormFeedback" where
  "incompleteFeedback movement =
     \<lparr>score = Num 0,
      feedback =
        [if movement = ''squat'' then ''Position yourself so your full body is visible''
         else if movement = ''bench'' then ''Position camera to show your upper body clearly''
         else ''Position yourself so your full body is visible from the side''],
      errors = [''Incomplete pose detection''],
      repCompleted = None, details = None\<rparr>"

text \<open>The depth ratio as the specification words it: the ankle height is the average
  of both ankles.\<close>

definition spec_depthRatio ::
  "KeyPoint \<Rightarrow> KeyPoint \<Rightarrow> KeyPoint \<Rightarrow> KeyPoint \<Rightarrow> KeyPoint \<Rightarrow> KeyPoint \<Rightarrow> jsnum" where
  "spec_depthRatio leftHip rightHip leftKnee rightKnee leftAnkle rightAnkle =
     (let avgHip = js_div (js_add (kp_y leftHip) (kp_y rightHip)) (Num 2);
          avgKnee = js_div (js_add (kp_y leftKnee) (kp_y rightKnee)) (Num 2);
          avgAnkle = js_div (js_add (kp_y leftAnkle) (kp_y rightAnkle)) (Num 2)
      in js_div (js_sub avgKnee avgHip) (js_sub avgAnkle avgHip))"

text \<open>What a call returns when it does not raise, and one entry of the \<open>details\<close>
  of a result.\<close>

definition returned :: "js_error + FormFeedback \<Rightarrow> FormFeedback option" where
  "returned res = (case res of Inl e \<Rightarrow> None | Inr r \<Rightarrow> Some r)"

definition detail :: "string \<Rightarrow> js_error + FormFeedback \<Rightarrow> jsnum option" where
  "detail name res =
     (case res of
        Inl e \<Rightarrow> None
      | Inr r \<Rightarrow> (case details r of None \<Rightarrow> None | Some ds \<Rightarrow> map_of ds name))"

text \<open>Swapping the labels: every \<open>left...\<close> landmark becomes the \<open>right...\<close> one and
  back; the other names stay.\<close>

definition mirrorName :: "string \<Rightarrow> string" where
  "mirrorName name =
     (if take 4 name = ''left'' then ''right'' @ drop 4 name
      else if take 5 name = ''right'' then ''left'' @ drop 5 name
      else name)"

definition swapLeftRight :: "(string \<rightharpoonup> KeyPoint) \<Rightarrow> (string \<rightharpoonup> KeyPoint)" where
  "swapLeftRight kps = (\<lambda>name. kps (mirrorName name))"

text \<open>The center of a left and a right coordinate, and the horizontal offset between
  the shoulder center and the hip center, computed as the evaluators compute them.\<close>

definition center :: "jsnum \<Rightarrow> jsnum \<Rightarrow> jsnum" where
  "center l r = js_div (js_add l r) (Num 2)"

definition torso_offset :: "KeyPoint \<Rightarrow> KeyPoint \<Rightarrow> KeyPoint \<Rightarrow> KeyPoint \<Rightarrow> jsnum" where
  "torso_offset leftShoulder rightShoulder leftHip rightHip =
     Math_abs (js_sub (center (kp_x leftShoulder) (kp_x rightShoulder))
                      (center (kp_x leftHip) (kp_x rightHip)))"

text \<open>The real value of a finite number. The horizontal offset between the shoulder
  center and the hip center of a frame in exact arithmetic on the real values of its
  coordinates, and the torso-uprightness test read on that offset.\<close>

fun fin :: "jsnum \<Rightarrow> real option" where
  "fin (Num r) = Some r"
| "fin NegZero = Some 0"
| "fin _ = None"

definition exact_offset :: "(string \<rightharpoonup> KeyPoint) \<Rightarrow> real option" where
  "exact_offset kps =
     (case (kps ''leftShoulder'', kps ''rightShoulder'', kps ''leftHip'', kps ''rightHip'') of
        (Some leftShoulder, Some rightShoulder, Some leftHip, Some rightHip) \<Rightarrow>
          (case (fin (kp_x leftShoulder), fin (kp_x rightShoulder),
                 fin (kp_x leftHip), fin (kp_x rightHip)) of
             (Some lsx, Some rsx, Some lhx, Some rhx) \<Rightarrow>
               Some \<bar>(lsx + rsx) / 2 - (lhx + rhx) / 2\<bar>
           | _ \<Rightarrow> None)
      | _ \<Rightarrow> None)"

definition exact_torso_upright :: "(string \<rightharpoonup> KeyPoint) \<Rightarrow> bool" where
  "exact_torso_upright kps =
     (case exact_offset kps of Some d \<Rightarrow> d < 0.05 | None \<Rightarrow> False)"

section \<open>Concrete frames\<close>

text \<open>A landmark given by two literals.\<close>

definition pt :: "real \<Rightarrow> real \<Rightarrow> KeyPoint" where
  "pt a b = \<lparr>kp_x = lit a, kp_y = lit b, kp_z = None, kp_visibility = None\<rparr>"

definition frame :: "(string \<times> KeyPoint) list \<Rightarrow> PoseData" where
  "frame kvs = \<lparr>keypoints = Some (map_of kvs), timestamp = Num 0\<rparr>"

text \<open>Scenario A, the squat with perfect form, and Scenario B, the same without the
  right ankle.\<close>

definition scenarioA :: "(string \<times> KeyPoint) list" where
  "scenarioA =
     [(''leftHip'', pt 0.4 0.6), (''rightHip'', pt 0.6 0.6),
      (''leftKnee'', pt 0.4 0.8), (''rightKnee'', pt 0.6 0.8),
      (''leftAnkle'', pt 0.4 1.0), (''rightAnkle'', pt 0.6 1.0)]"

definition scenarioB :: "(string \<times> KeyPoint) list" where
  "scenarioB =
     [(''leftHip'', pt 0.4 0.6), (''rightHip'', pt 0.6 0.6),
      (''leftKnee'', pt 0.4 0.8), (''rightKnee'', pt 0.6 0.8),
      (''leftAnkle'', pt 0.4 1.0)]"

text \<open>A squat frame whose ankles are at different heights.\<close>

definition unevenAnkles :: "(string \<times> KeyPoint) list" where
  "unevenAnkles =
     [(''leftHip'', pt 0.25 0.25), (''rightHip'', pt 0.75 0.25),
      (''leftKnee'', pt 0.25 0.5), (''rightKnee'', pt 0.75 0.5),
      (''leftAnkle'', pt 0.25 0.75), (''rightAnkle'', pt 0.75 1)]"

text \<open>Scenario C, the bench press with a slight elbow flare.\<close>

definition scenarioC :: "(string \<times> KeyPoint) list" where
  "scenarioC =
     [(''leftShoulder'', pt 0.3 0.3), (''rightShoulder'', pt 0.7 0.3),
      (''leftElbow'', pt 0.3 0.5), (''rightElbow'', pt 0.7 0.5),
      (''leftWrist'', pt 0.5 0.5), (''rightWrist'', pt 0.5 0.5)]"

text \<open>Scenario C with the left elbow on the left shoulder, so that the ray from the
  elbow to the shoulder has length zero.\<close>

definition collapsedArm :: "(string \<times> KeyPoint) list" where
  "collapsedArm =
     [(''leftShoulder'', pt 0.3 0.3), (''rightShoulder'', pt 0.7 0.3),
      (''leftElbow'', pt 0.3 0.3), (''rightElbow'', pt 0.7 0.5),
      (''leftWrist'', pt 0.5 0.5), (''rightWrist'', pt 0.5 0.5)]"

text \<open>A deadlift frame whose shoulder center and hip center are 0.45 and 0.5 in
  decimal arithmetic.\<close>

definition offsetBoundary :: "(string \<times> KeyPoint) list" where
  "offsetBoundary =
     [(''leftShoulder'', pt 0.03 0.25), (''rightShoulder'', pt 0.87 0.25),
      (''leftHip'', pt 0.4 0.5), (''rightHip'', pt 0.6 0.5),
      (''leftKnee'', pt 0.5 0.75), (''rightKnee'', pt 0.5 0.75)]"

text \<open>Three deadlift frames with hips at \<open>(0.5, 0.5)\<close> and knees at \<open>(0.5, 0.75)\<close>:
  the shoulders straight above the hips, level with the hips on their right, and level
  with the hips on their left.\<close>

definition deadliftFrame :: "real \<Rightarrow> real \<Rightarrow> (string \<times> KeyPoint) list" where
  "deadliftFrame sx sy =
     [(''leftShoulder'', pt sx sy), (''rightShoulder'', pt sx sy),
      (''leftHip'', pt 0.5 0.5), (''rightHip'', pt 0.5 0.5),
      (''leftKnee'', pt 0.5 0.75), (''rightKnee'', pt 0.5 0.75)]"

section \<open>Powers of two and the exponent\<close>

lemma pow2_powr: "pow2 k = 2 powr (of_int k)"
  by (simp add: pow2_def powr_real_of_int inverse_eq_divide)

lemma pow2_pos [simp]: "0 < pow2 k"
  by (simp add: pow2_powr)

lemma pow2_nonneg [simp]: "0 \<le> pow2 k"
  using pow2_pos[of k] by linarith

lemma pow2_not_le0 [simp]: "\<not> pow2 k \<le> 0"
  using pow2_pos[of k] by linarith

lemma pow2_neq0 [simp]: "pow2 k \<noteq> 0"
  using pow2_pos[of k] by linarith

lemma abs_pow2 [simp]: "\<bar>pow2 k\<bar> = pow2 k"
  using pow2_pos[of k] by linarith

lemma pow2_add: "pow2 (a + b) = pow2 a * pow2 b"
  by (simp add: pow2_powr powr_add)

lemma pow2_mono: "a \<le> b \<Longrightarrow> pow2 a \<le> pow2 b"
  by (simp add: pow2_powr)

lemma pow2_strict_mono: "a < b \<Longrightarrow> pow2 a < pow2 b"
  by (simp add: pow2_powr)

lemma exponent_from_ge: "e \<le> exponent_from n e a"
proof (induction n arbitrary: e)
  case 0
  then show ?case by simp
next
  case (Suc n)
  from Suc.IH[of "e + 1"] show ?case by simp
qed

lemma exponent_from_le: "e < exponent_from n e a \<Longrightarrow> pow2 (exponent_from n e a) \<le> a"
proof (induction n arbitrary: e)
  case 0
  then show ?case by simp
next
  case (Suc n)
  show ?case
  proof (cases "pow2 (e + 1) \<le> a")
    case True
    show ?thesis
    proof (cases "e + 1 < exponent_from n (e + 1) a")
      case True
      with Suc.IH[of "e + 1"] \<open>pow2 (e + 1) \<le> a\<close> show ?thesis by simp
    next
      case False
      with exponent_from_ge[of "e + 1" n a] have "exponent_from n (e + 1) a = e + 1" by simp
      with \<open>pow2 (e + 1) \<le> a\<close> show ?thesis by simp
    qed
  next
    case False
    with Suc.prems show ?thesis by simp
  qed
qed

lemma exponent_from_eqI:
  "e0 \<le> e \<Longrightarrow> e - e0 \<le> int n \<Longrightarrow> pow2 e \<le> a \<or> e = e0 \<Longrightarrow> a < pow2 (e + 1) \<Longrightarrow>
   exponent_from n e0 a = e"
proof (induction n arbitrary: e0)
  case 0
  then show ?case by simp
next
  case (Suc n)
  show ?case
  proof (cases "e0 = e")
    case True
    with Suc.prems show ?thesis by simp
  next
    case False
    with Suc.prems have lt: "e0 + 1 \<le> e" and pe: "pow2 e \<le> a" by auto
    from pow2_mono[OF lt] pe have "pow2 (e0 + 1) \<le> a" by simp
    moreover have "exponent_from n (e0 + 1) a = e"
      using Suc.prems lt pe by (intro Suc.IH) auto
    ultimately show ?thesis by simp
  qed
qed

lemma exponent_eqI:
  "- 1022 \<le> e \<Longrightarrow> e \<le> 1024 \<Longrightarrow> pow2 e \<le> a \<Longrightarrow> a < pow2 (e + 1) \<Longrightarrow> exponent a = e"
  unfolding exponent_def by (rule exponent_from_eqI) auto

lemma exponent_ge: "- 1022 \<le> exponent a"
  unfolding exponent_def by (rule exponent_from_ge)

lemma exponent_le: "- 1022 < exponent a \<Longrightarrow> pow2 (exponent a) \<le> a"
  unfolding exponent_def by (rule exponent_from_le)

section \<open>Rounding\<close>

lemma round_even_eqI: "\<bar>q - of_int m\<bar> < 1 / 2 \<Longrightarrow> round_even q = m"
proof -
  assume a: "\<bar>q - of_int m\<bar> < 1 / 2"
  show ?thesis
  proof (cases "of_int m \<le> q")
    case True
    with a have "\<lfloor>q\<rfloor> = m" by (intro floor_unique) auto
    with a True show ?thesis by (simp add: round_even_def Let_def)
  next
    case False
    with a have f: "\<lfloor>q\<rfloor> = m - 1" by (intro floor_unique) auto
    with a False show ?thesis by (simp add: round_even_def Let_def)
  qed
qed

lemma round_even_minus: "round_even (- q) = - round_even q"
proof (cases "q = of_int \<lfloor>q\<rfloor>")
  case True
  then obtain z where "q = of_int z" ..
  then show ?thesis by (simp add: round_even_def Let_def)
next
  case False
  then have c: "\<lfloor>- q\<rfloor> = - \<lfloor>q\<rfloor> - 1"
    by (simp add: floor_minus ceiling_altdef)
  have "of_int \<lfloor>q\<rfloor> \<le> q" "q < of_int \<lfloor>q\<rfloor> + 1" by linarith+
  with False show ?thesis
    unfolding round_even_def Let_def c by (auto simp: field_simps)
qed

lemma round_even_ge1: "1 \<le> q \<Longrightarrow> 1 \<le> round_even q"
proof -
  assume q: "1 \<le> q"
  then have "1 \<le> \<lfloor>q\<rfloor>" by simp
  then show ?thesis by (auto simp: round_even_def Let_def)
qed

text \<open>A value within half a unit of \<open>m \<sqdot> 2\<^sup>k\<close>, in the binade of that unit, rounds to it.\<close>

lemma fl_normalI:
  assumes lo: "pow2 (k + 52) \<le> \<bar>x\<bar>" and hi: "\<bar>x\<bar> < pow2 (k + 53)"
    and k: "- 1074 \<le> k" "k \<le> 970"
    and m: "\<bar>x / pow2 k - of_int m\<bar> < 1 / 2"
  shows "fl x = Num (of_int m * pow2 k)"
proof -
  have x0: "x \<noteq> 0" using lo by auto
  have e: "exponent \<bar>x\<bar> = k + 52"
    using lo hi k by (intro exponent_eqI) (auto simp: add.commute)
  have r: "round_even (x / pow2 k) = m" by (rule round_even_eqI[OF m])
  have q1: "pow2 52 \<le> \<bar>x / pow2 k\<bar>"
    using lo by (simp add: pow2_add field_simps)
  have q2: "\<bar>x / pow2 k\<bar> < pow2 53"
    using hi by (simp add: pow2_add field_simps)
  have m1: "\<bar>of_int m :: real\<bar> \<le> pow2 53"
  proof -
    have "\<bar>of_int m :: real\<bar> < pow2 53 + 1 / 2" using m q2 by linarith
    then have "\<bar>of_int m :: real\<bar> < of_int (2 ^ 53 + 1)" by (simp add: pow2_def)
    then have "\<bar>m\<bar> < 2 ^ 53 + 1" by (metis of_int_abs of_int_less_iff)
    then have "\<bar>m\<bar> \<le> 2 ^ 53" by simp
    then have "of_int \<bar>m\<bar> \<le> (of_int (2 ^ 53) :: real)" by (metis of_int_le_iff)
    then show ?thesis by (simp add: pow2_def)
  qed
  have m0: "m \<noteq> 0"
  proof
    assume "m = 0"
    with m have "\<bar>x / pow2 k\<bar> < 1 / 2" by simp
    moreover have "(1::real) \<le> pow2 52" by (simp add: pow2_def)
    ultimately show False using q1 by linarith
  qed
  have y: "\<bar>of_int m * pow2 k\<bar> < pow2 1024"
  proof -
    have "\<bar>of_int m * pow2 k\<bar> = \<bar>of_int m\<bar> * pow2 k" by (simp add: abs_mult)
    also have "\<dots> \<le> pow2 53 * pow2 k" using m1 by (simp add: mult_right_mono)
    also have "\<dots> = pow2 (53 + k)" by (simp add: pow2_add)
    also have "\<dots> < pow2 1024" using k by (intro pow2_strict_mono) simp
    finally show ?thesis .
  qed
  show ?thesis
    using x0 y m0 by (simp add: fl_def e r Let_def)
qed

lemma fl_minus: "x \<noteq> 0 \<Longrightarrow> fl (- x) = js_neg (fl x)"
  by (cases "x < 0") (auto simp: fl_def Let_def round_even_minus)

text \<open>An integer below \<open>2\<^sup>5\<^sup>3\<close> in magnitude is a binary64 number.\<close>

lemma fl_Ints:
  assumes "x \<in> \<int>" "\<bar>x\<bar> < 2 ^ 53"
  shows "fl x = Num x"
proof (cases "x = 0")
  case True
  then show ?thesis by (simp add: fl_def)
next
  case False
  from assms(1) obtain z :: int where z: "x = of_int z" by (auto elim: Ints_cases)
  with False have z0: "z \<noteq> 0" by simp
  then have "1 \<le> nat \<bar>z\<bar>" by simp
  from ex_power_ivl1[OF _ this, of 2] obtain e where
    e: "2 ^ e \<le> nat \<bar>z\<bar>" "nat \<bar>z\<bar> < 2 ^ (e + 1)" by auto
  have az: "\<bar>x\<bar> = of_nat (nat \<bar>z\<bar>)" by (simp add: z)
  have lo: "(2::real) ^ e \<le> \<bar>x\<bar>"
    unfolding az using e(1) by (metis of_nat_le_iff of_nat_numeral of_nat_power)
  have hi: "\<bar>x\<bar> < (2::real) ^ (e + 1)"
    unfolding az using e(2) by (metis of_nat_less_iff of_nat_numeral of_nat_power)
  have "(2::real) ^ e < 2 ^ 53" using lo assms(2) by linarith
  from power_less_imp_less_exp[OF _ this] have e52: "e \<le> 52" by simp
  let ?k = "int e - 52"
  let ?m = "z * 2 ^ (52 - e)"
  have pk: "pow2 ?k * 2 ^ (52 - e) = 1"
  proof -
    have "pow2 ?k * pow2 (int (52 - e)) = pow2 (?k + int (52 - e))" by (simp add: pow2_add)
    also have "?k + int (52 - e) = 0" using e52 by simp
    finally show ?thesis by (simp add: pow2_def)
  qed
  have val: "of_int ?m * pow2 ?k = x"
    using pk by (simp add: z mult.assoc mult.commute)
  have "fl x = Num (of_int ?m * pow2 ?k)"
  proof (rule fl_normalI)
    show "pow2 (?k + 52) \<le> \<bar>x\<bar>" using lo by (simp add: pow2_def)
    show "\<bar>x\<bar> < pow2 (?k + 53)" using hi by (simp add: pow2_def nat_add_distrib)
    show "- 1074 \<le> ?k" by simp
    show "?k \<le> 970" using e52 by simp
    have "x / pow2 ?k = of_int ?m"
      using val by (simp add: field_simps)
    then show "\<bar>x / pow2 ?k - of_int ?m\<bar> < 1 / 2" by simp
  qed
  with val show ?thesis by simp
qed

text \<open>Every finite result of \<open>fl\<close> is a multiple of the least subnormal number, and a
  value of at least that magnitude does not round to zero.\<close>

lemma fl_unfold:
  "x \<noteq> 0 \<Longrightarrow> y = of_int (round_even (x / pow2 (exponent \<bar>x\<bar> - 52))) * pow2 (exponent \<bar>x\<bar> - 52) \<Longrightarrow>
   fl x = (if pow2 1024 \<le> \<bar>y\<bar> then inf_signed (x < 0)
           else if y = 0 then zero_signed (x < 0) else Num y)"
  by (simp add: fl_def Let_def)

lemma fl_grid: "fl x = Num y \<Longrightarrow> \<exists>n::int. y = of_int n * pow2 (- 1074)"
proof (cases "x = 0")
  case True
  assume "fl x = Num y"
  with True have "y = of_int 0 * pow2 (- 1074)" by (simp add: fl_def)
  then show ?thesis by blast
next
  case False
  assume a: "fl x = Num y"
  let ?E = "exponent \<bar>x\<bar>"
  let ?r = "round_even (x / pow2 (?E - 52))"
  define y0 where "y0 = of_int ?r * pow2 (?E - 52)"
  from a fl_unfold[OF False y0_def] have y: "y = y0"
    by (cases "x < 0") (auto split: if_splits)
  have "pow2 (?E - 52) = pow2 (?E + 1022) * pow2 (- 1074)"
    by (simp add: pow2_add[symmetric])
  also have "pow2 (?E + 1022) = of_int (2 ^ nat (?E + 1022))"
    using exponent_ge[of "\<bar>x\<bar>"] by (simp add: pow2_def)
  finally have "y = of_int (?r * 2 ^ nat (?E + 1022)) * pow2 (- 1074)"
    using y by (simp add: y0_def)
  then show ?thesis by blast
qed

lemma fl_pos:
  assumes "pow2 (- 1074) \<le> x"
  shows "(\<exists>y. fl x = Num y \<and> 0 < y) \<or> fl x = PosInf"
proof -
  have x0: "0 < x" using assms pow2_pos[of "- 1074"] by linarith
  let ?E = "exponent \<bar>x\<bar>"
  let ?u = "pow2 (?E - 52)"
  have u: "?u \<le> x"
  proof (cases "?E = - 1022")
    case True
    with assms show ?thesis by simp
  next
    case False
    with exponent_ge[of "\<bar>x\<bar>"] have "- 1022 < ?E" by simp
    from exponent_le[OF this] x0 have "pow2 ?E \<le> x" by simp
    moreover have "?u \<le> pow2 ?E" by (rule pow2_mono) simp
    ultimately show ?thesis by linarith
  qed
  then have "1 \<le> x / ?u" by (simp add: field_simps)
  then have "1 \<le> round_even (x / ?u)" by (rule round_even_ge1)
  then have "0 < (of_int (round_even (x / ?u)) :: real)" by simp
  then have "0 < of_int (round_even (x / ?u)) * ?u" by simp
  with x0 fl_unfold[OF _ refl, of x] show ?thesis by auto
qed

lemma fl_neg:
  assumes "x \<le> - pow2 (- 1074)"
  shows "(\<exists>y. fl x = Num y \<and> y < 0) \<or> fl x = NegInf"
proof -
  have x0: "x \<noteq> 0" using assms pow2_pos[of "- 1074"] by linarith
  have "pow2 (- 1074) \<le> - x" using assms by simp
  from fl_pos[OF this] fl_minus[of "- x"] x0 show ?thesis
    by (cases "fl x") (auto split: if_splits)
qed

section \<open>Facts about the numbers\<close>

lemma js_sub_Num: "js_sub (Num a) (Num b) = fl (a - b)"
  by (simp add: js_sub_def)

lemma js_sub_Ints:
  "a \<in> \<int> \<Longrightarrow> b \<in> \<int> \<Longrightarrow> \<bar>a - b\<bar> < 2 ^ 53 \<Longrightarrow> js_sub (Num a) (Num b) = Num (a - b)"
  by (simp add: js_sub_Num fl_Ints)

lemma js_sub_self: "js_sub (Num a) (Num a) = Num 0"
  by (simp add: js_sub_Num fl_def)

lemma Math_max_Num: "Math_max (Num a) (Num b) = Num (max a b)"
  by (simp add: Math_max_def js_lt_def max_def)

lemma js_mul_Num: "a \<noteq> 0 \<Longrightarrow> b \<noteq> 0 \<Longrightarrow> js_mul (Num a) (Num b) = fl (a * b)"
  by (simp add: js_mul_def)

lemma js_div_Num: "a \<noteq> 0 \<Longrightarrow> b \<noteq> 0 \<Longrightarrow> js_div (Num a) (Num b) = fl (a / b)"
  by (simp add: js_div_def)

lemma js_add_Num: "js_add (Num a) (Num b) = fl (a + b)"
  by simp

lemma NaN_propagates:
  "Math_min a NaN = NaN" "Math_max a NaN = NaN" "js_mul NaN a = NaN" "js_div NaN a = NaN"
  "js_div a NaN = NaN"
  by (simp_all add: Math_min_def Math_max_def js_mul_def js_div_def)

lemma Math_abs_neg: "Math_abs (js_neg a) = Math_abs a"
  by (cases a) auto

lemma Math_abs_sub_commute: "Math_abs (js_sub a b) = Math_abs (js_sub b a)"
proof (cases "\<exists>x y. a = Num x \<and> b = Num y \<and> x \<noteq> y")
  case True
  then obtain x y where xy: "a = Num x" "b = Num y" "x \<noteq> y" by blast
  have "fl (y - x) = js_neg (fl (x - y))"
    using fl_minus[of "x - y"] xy(3) by simp
  then show ?thesis by (simp add: xy js_sub_Num Math_abs_neg)
next
  case False
  show ?thesis
  proof (cases a)
    case (Num x)
    show ?thesis
    proof (cases b)
      case b: (Num y)
      with Num False have "x = y" by simp
      with Num b show ?thesis by simp
    next
      case NegZero
      show ?thesis
      proof (cases "x = 0")
        case True
        with Num NegZero show ?thesis by (simp add: js_sub_def fl_def)
      next
        case False
        with Num NegZero fl_minus[of x] show ?thesis
          by (simp add: js_sub_def Math_abs_neg)
      qed
    qed (use Num in \<open>auto simp: js_sub_def\<close>)
  next
    case NegZero
    show ?thesis
    proof (cases b)
      case (Num y)
      show ?thesis
      proof (cases "y = 0")
        case True
        with Num NegZero show ?thesis by (simp add: js_sub_def fl_def)
      next
        case False
        with Num NegZero fl_minus[of y] show ?thesis
          by (simp add: js_sub_def Math_abs_neg)
      qed
    qed (use NegZero in \<open>auto simp: js_sub_def fl_def\<close>)
  qed (cases b; auto simp: js_sub_def)+
qed

lemma Math_max_commute: "Math_max a b = Math_max b a"
  by (cases a; cases b) (auto simp: Math_max_def js_lt_def)

text \<open>A value strictly between the two midpoints around \<open>m \<sqdot> 2\<^sup>k\<close> rounds to it.\<close>

lemma fl_betweenI:
  assumes lo: "(of_int m - 1 / 2) * pow2 k < x" and hi: "x < (of_int m + 1 / 2) * pow2 k"
    and m: "2 ^ 52 < m" "m < 2 ^ 53" and k: "- 1074 \<le> k" "k \<le> 970"
  shows "fl x = Num (of_int m * pow2 k)"
proof (rule fl_normalI[OF _ _ k])
  have "(2::int) ^ 52 + 1 \<le> m" using m(1) by simp
  then have "(of_int ((2::int) ^ 52 + 1)::real) \<le> of_int m" by (simp only: of_int_le_iff)
  then have m1: "(2::real) ^ 52 + 1 \<le> of_int m" by simp
  have "m + 1 \<le> (2::int) ^ 53" using m(2) by simp
  then have "(of_int (m + 1)::real) \<le> of_int ((2::int) ^ 53)" by (simp only: of_int_le_iff)
  then have m2: "of_int m + 1 \<le> (2::real) ^ 53" by simp
  have p52: "pow2 (k + 52) = 2 ^ 52 * pow2 k" and p53: "pow2 (k + 53) = 2 ^ 53 * pow2 k"
    using pow2_add[of 52 k] pow2_add[of 53 k]
    by (simp_all add: pow2_def[of 52] pow2_def[of 53] add.commute)
  have "2 ^ 52 * pow2 k \<le> (of_int m - 1 / 2) * pow2 k"
    using m1 by (intro mult_right_mono) auto
  with lo have x1: "2 ^ 52 * pow2 k < x" by linarith
  have "0 < (2::real) ^ 52 * pow2 k" by simp
  with x1 have xp: "0 < x" by linarith
  have "(of_int m + 1 / 2) * pow2 k \<le> 2 ^ 53 * pow2 k"
    using m2 by (intro mult_right_mono) auto
  with hi have x2: "x < 2 ^ 53 * pow2 k" by linarith
  show "pow2 (k + 52) \<le> \<bar>x\<bar>" using x1 xp by (simp add: p52)
  show "\<bar>x\<bar> < pow2 (k + 53)" using x2 xp by (simp add: p53)
  have "of_int m - 1 / 2 < x / pow2 k" using lo by (simp add: field_simps)
  moreover have "x / pow2 k < of_int m + 1 / 2" using hi by (simp add: field_simps)
  ultimately show "\<bar>x / pow2 k - of_int m\<bar> < 1 / 2" by linarith
qed

section \<open>The rule blocks subtract their penalty\<close>

lemma penalty_below_range:
  "0 \<le> sp \<Longrightarrow> sp \<le> hp \<Longrightarrow>
   0 \<le> penalty_below m a hp b sp \<and> penalty_below m a hp b sp \<le> hp"
  by (simp add: penalty_below_def)

lemma penalty_above_range:
  "0 \<le> sp \<Longrightarrow> sp \<le> hp \<Longrightarrow>
   0 \<le> penalty_above m a hp b sp \<and> penalty_above m a hp b sp \<le> hp"
  by (simp add: penalty_above_def)

lemma penalty_over_range: "0 \<le> p \<Longrightarrow> 0 \<le> penalty_over m a p \<and> penalty_over m a p \<le> p"
  by (simp add: penalty_over_def)

lemma penalty_Ints:
  "hp \<in> \<int> \<Longrightarrow> sp \<in> \<int> \<Longrightarrow> penalty_below m a hp b sp \<in> \<int>"
  "hp \<in> \<int> \<Longrightarrow> sp \<in> \<int> \<Longrightarrow> penalty_above m a hp b sp \<in> \<int>"
  "p \<in> \<int> \<Longrightarrow> penalty_over m a p \<in> \<int>"
  by (simp_all add: penalty_below_def penalty_above_def penalty_over_def)

text \<open>The running score is an integer between 0 and 100, so each subtraction is exact.\<close>

lemma score_sub:
  "s \<in> \<int> \<Longrightarrow> 0 \<le> s \<Longrightarrow> s \<le> 100 \<Longrightarrow> p \<in> \<int> \<Longrightarrow> 0 \<le> p \<Longrightarrow> p \<le> 100 \<Longrightarrow>
   js_sub (Num s) (Num p) = Num (s - p)"
  by (rule js_sub_Ints) auto

lemma squat_depth_rule_score:
  assumes "t_score t = Num s" "s \<in> \<int>" "0 \<le> s" "s \<le> 100"
  shows "t_score (squat_depth_rule m t) = Num (s - penalty_below m 0.1 25 0.3 5)"
  using assms by (simp add: squat_depth_rule_def penalty_below_def score_sub)

lemma squat_knee_rule_score:
  assumes "t_score t = Num s" "s \<in> \<int>" "0 \<le> s" "s \<le> 100"
  shows "t_score (squat_knee_rule m t) = Num (s - penalty_below m 0.7 30 0.85 10)"
  using assms by (simp add: squat_knee_rule_def penalty_below_def score_sub)

lemma squat_lean_rule_score:
  assumes "t_score t = Num s" "s \<in> \<int>" "0 \<le> s" "s \<le> 100"
  shows "t_score (squat_lean_rule m t) = Num (s - penalty_above m 0.1 20 0.05 5)"
  using assms by (simp add: squat_lean_rule_def penalty_above_def score_sub)

lemma squat_symmetry_rule_score:
  assumes "t_score t = Num s" "s \<in> \<int>" "0 \<le> s" "s \<le> 100"
  shows "t_score (squat_symmetry_rule m t) = Num (s - penalty_over m 0.15 15)"
  using assms by (simp add: squat_symmetry_rule_def penalty_over_def score_sub)

lemma bench_elbow_rule_score:
  assumes "t_score t = Num s" "s \<in> \<int>" "0 \<le> s" "s \<le> 100"
  shows "t_score (bench_elbow_rule m t) = Num (s - penalty_above m 100 25 85 10)"
  using assms by (simp add: bench_elbow_rule_def penalty_above_def score_sub)

lemma bench_bar_rule_score:
  assumes "t_score t = Num s" "s \<in> \<int>" "0 \<le> s" "s \<le> 100"
  shows "t_score (bench_bar_rule m t) = Num (s - penalty_above m 0.08 20 0.04 5)"
  using assms by (simp add: bench_bar_rule_def penalty_above_def score_sub)

lemma bench_symmetry_rule_score:
  assumes "t_score t = Num s" "s \<in> \<int>" "0 \<le> s" "s \<le> 100"
  shows "t_score (bench_symmetry_rule m t) = Num (s - penalty_over m 0.1 15)"
  using assms by (simp add: bench_symmetry_rule_def penalty_over_def score_sub)

lemma deadlift_back_rule_score:
  assumes "t_score t = Num s" "s \<in> \<int>" "0 \<le> s" "s \<le> 100"
  shows "t_score (deadlift_back_rule m t) = Num (s - penalty_above (Math_abs m) 30 30 15 10)"
  using assms by (simp add: deadlift_back_rule_def penalty_above_def score_sub)

lemma deadlift_hinge_rule_score:
  assumes "t_score t = Num s" "s \<in> \<int>" "0 \<le> s" "s \<le> 100"
  shows "t_score (deadlift_hinge_rule m t) = Num (s - penalty_below m 0.1 25 0.15 5)"
  using assms by (simp add: deadlift_hinge_rule_def penalty_below_def score_sub)

lemma deadlift_knee_rule_score:
  assumes "t_score t = Num s" "s \<in> \<int>" "0 \<le> s" "s \<le> 100"
  shows "t_score (deadlift_knee_rule m t) = Num (s - penalty_over m 0.08 15)"
  using assms by (simp add: deadlift_knee_rule_def penalty_over_def score_sub)

section \<open>Landmark validation\<close>

lemma required_squat:
  "list_all (\<lambda>point. kps point \<noteq> None) squat_requiredPoints \<longleftrightarrow>
   (\<exists>lh rh lk rk la ra. kps ''leftHip'' = Some lh \<and> kps ''rightHip'' = Some rh \<and>
      kps ''leftKnee'' = Some lk \<and> kps ''rightKnee'' = Some rk \<and>
      kps ''leftAnkle'' = Some la \<and> kps ''rightAnkle'' = Some ra)"
  by (auto simp: squat_requiredPoints_def)

lemma required_bench:
  "list_all (\<lambda>point. kps point \<noteq> None) bench_requiredPoints \<longleftrightarrow>
   (\<exists>ls rs le re lw rw. kps ''leftShoulder'' = Some ls \<and> kps ''rightShoulder'' = Some rs \<and>
      kps ''leftElbow'' = Some le \<and> kps ''rightElbow'' = Some re \<and>
      kps ''leftWrist'' = Some lw \<and> kps ''rightWrist'' = Some rw)"
  by (auto simp: bench_requiredPoints_def)

lemma required_deadlift:
  "list_all (\<lambda>point. kps point \<noteq> None) deadlift_requiredPoints \<longleftrightarrow>
   (\<exists>ls rs lh rh lk rk. kps ''leftShoulder'' = Some ls \<and> kps ''rightShoulder'' = Some rs \<and>
      kps ''leftHip'' = Some lh \<and> kps ''rightHip'' = Some rh \<and>
      kps ''leftKnee'' = Some lk \<and> kps ''rightKnee'' = Some rk)"
  by (auto simp: deadlift_requiredPoints_def)

lemma swapLeftRight_lookup:
  "swapLeftRight kps ''leftHip'' = kps ''rightHip''"
  "swapLeftRight kps ''rightHip'' = kps ''leftHip''"
  "swapLeftRight kps ''leftKnee'' = kps ''rightKnee''"
  "swapLeftRight kps ''rightKnee'' = kps ''leftKnee''"
  "swapLeftRight kps ''leftAnkle'' = kps ''rightAnkle''"
  "swapLeftRight kps ''rightAnkle'' = kps ''leftAnkle''"
  "swapLeftRight kps ''leftShoulder'' = kps ''rightShoulder''"
  "swapLeftRight kps ''rightShoulder'' = kps ''leftShoulder''"
  "swapLeftRight kps ''leftElbow'' = kps ''rightElbow''"
  "swapLeftRight kps ''rightElbow'' = kps ''leftElbow''"
  "swapLeftRight kps ''leftWrist'' = kps ''rightWrist''"
  "swapLeftRight kps ''rightWrist'' = kps ''leftWrist''"
  by (simp_all add: swapLeftRight_def mirrorName_def)

section \<open>The evaluators on a complete frame\<close>

lemma detectBottomPosition_ok:
  assumes "keypoints pd = Some kps" "kps ''leftHip'' = Some lh" "kps ''rightHip'' = Some rh"
    "kps ''leftKnee'' = Some lk" "kps ''rightKnee'' = Some rk"
  shows "detectBottomPosition pd =
    Inr (js_gt (js_div (js_add (kp_y lh) (kp_y rh)) (Num 2))
               (js_div (js_add (kp_y lk) (kp_y rk)) (Num 2)))"
  using assms by (simp add: detectBottomPosition_def)

lemma detectDeadliftMovement_ok:
  assumes "keypoints pd = Some kps" "kps ''leftHip'' = Some lh" "kps ''rightHip'' = Some rh"
    "kps ''leftShoulder'' = Some ls" "kps ''rightShoulder'' = Some rs"
  shows "detectDeadliftMovement pd = Inr (js_lt (torso_offset ls rs lh rh) (lit 0.05))"
  using assms by (simp add: detectDeadliftMovement_def torso_offset_def center_def)

lemma analyzeSquat_complete:
  assumes kp: "keypoints pd = Some kps"
    and l: "kps ''leftHip'' = Some lh" "kps ''rightHip'' = Some rh"
       "kps ''leftKnee'' = Some lk" "kps ''rightKnee'' = Some rk"
       "kps ''leftAnkle'' = Some la" "kps ''rightAnkle'' = Some ra"
  shows "\<exists>r t. analyzeSquat pd = Inr r \<and>
           t = squat_symmetry_rule (squat_asymmetry lh rh lk rk)
                 (case (kps ''leftShoulder'', kps ''rightShoulder'') of
                    (Some leftShoulder, Some rightShoulder) \<Rightarrow>
                      squat_lean_rule (squat_forwardLean leftShoulder rightShoulder lh rh)
                        (squat_knee_rule (squat_kneeCollapseRatio lh rh lk rk)
                           (squat_depth_rule (squat_depthRatio lh rh lk rk la) tally0))
                  | _ \<Rightarrow> squat_knee_rule (squat_kneeCollapseRatio lh rh lk rk)
                           (squat_depth_rule (squat_depthRatio lh rh lk rk la) tally0)) \<and>
           score r = Math_max (Num 0) (t_score t) \<and>
           feedback r = t_feedback t \<and> errors r = t_errors t \<and>
           repCompleted r =
             Some (js_gt (squat_depthRatio lh rh lk rk la) (lit 0.2) \<and>
                   js_gt (js_div (js_add (kp_y lh) (kp_y rh)) (Num 2))
                         (js_div (js_add (kp_y lk) (kp_y rk)) (Num 2))) \<and>
           details r =
             Some [(''depth'', squat_depthRatio lh rh lk rk la),
                   (''kneeTracking'', squat_kneeCollapseRatio lh rh lk rk),
                   (''forwardLean'',
                      case (kps ''leftShoulder'', kps ''rightShoulder'') of
                        (Some leftShoulder, Some rightShoulder) \<Rightarrow>
                          squat_forwardLean leftShoulder rightShoulder lh rh
                      | _ \<Rightarrow> Num 0),
                   (''symmetry'', squat_asymmetry lh rh lk rk)]"
proof -
  have req: "list_all (\<lambda>point. kps point \<noteq> None) squat_requiredPoints"
    unfolding required_squat using l by blast
  show ?thesis
    using req
    by (auto simp: analyzeSquat_def kp l Let_def detectBottomPosition_ok[OF kp l(1-4)]
        split: option.splits)
qed

lemma analyzeBench_complete:
  assumes kp: "keypoints pd = Some kps"
    and l: "kps ''leftShoulder'' = Some ls" "kps ''rightShoulder'' = Some rs"
       "kps ''leftElbow'' = Some le" "kps ''rightElbow'' = Some re"
       "kps ''leftWrist'' = Some lw" "kps ''rightWrist'' = Some rw"
  shows "\<exists>r t. analyzeBench rnd pd = Inr r \<and>
           t = bench_symmetry_rule (bench_asymmetry ls rs lw rw)
                 (bench_bar_rule (bench_barDeviation ls rs lw rw)
                    (bench_elbow_rule (bench_avgElbowAngle ls rs le re lw rw) tally0)) \<and>
           score r = Math_max (Num 0) (t_score t) \<and>
           feedback r = t_feedback t \<and> errors r = t_errors t \<and>
           repCompleted r = Some (js_gt (lit rnd) (lit 0.8)) \<and>
           details r =
             Some [(''elbowAngle'', bench_avgElbowAngle ls rs le re lw rw),
                   (''barPath'', bench_barDeviation ls rs lw rw),
                   (''symmetry'', bench_asymmetry ls rs lw rw)]"
proof -
  have req: "list_all (\<lambda>point. kps point \<noteq> None) bench_requiredPoints"
    unfolding required_bench using l by blast
  show ?thesis
    using req
    by (simp add: analyzeBench_def kp l Let_def detectPressMovement_def)
qed

lemma analyzeDeadlift_complete:
  assumes kp: "keypoints pd = Some kps"
    and l: "kps ''leftShoulder'' = Some ls" "kps ''rightShoulder'' = Some rs"
       "kps ''leftHip'' = Some lh" "kps ''rightHip'' = Some rh"
       "kps ''leftKnee'' = Some lk" "kps ''rightKnee'' = Some rk"
  shows "\<exists>r t t'. analyzeDeadlift pd = Inr r \<and>
           t = deadlift_hinge_rule (deadlift_hipToKneeDistance lh rh lk rk)
                 (deadlift_back_rule (deadlift_backAngle ls rs lh rh) tally0) \<and>
           t' = (case (kps ''leftAnkle'', kps ''rightAnkle'') of
                   (Some leftAnkle, Some rightAnkle) \<Rightarrow>
                     deadlift_knee_rule (deadlift_kneeOverToes lk rk leftAnkle rightAnkle) t
                 | _ \<Rightarrow> t) \<and>
           score r = Math_max (Num 0) (t_score t') \<and>
           feedback r = t_feedback t \<and>
           (\<exists>es. errors r = t_errors t @ es) \<and>
           repCompleted r = Some (js_lt (torso_offset ls rs lh rh) (lit 0.05)) \<and>
           details r =
             Some [(''backAngle'', Math_abs (deadlift_backAngle ls rs lh rh)),
                   (''hipHinge'', deadlift_hipToKneeDistance lh rh lk rk)]"
proof -
  have req: "list_all (\<lambda>point. kps point \<noteq> None) deadlift_requiredPoints"
    unfolding required_deadlift using l by blast
  show ?thesis
    using req
    by (auto simp: analyzeDeadlift_def kp l Let_def detectDeadliftMovement_ok[OF kp l(3,4,1,2)]
        deadlift_knee_rule_def split: option.splits)
qed

lemma analyzeSquat_score:
  assumes kp: "keypoints pd = Some kps"
    and req: "list_all (\<lambda>point. kps point \<noteq> None) squat_requiredPoints"
  shows "\<exists>r p. analyzeSquat pd = Inr r \<and> squat_penalties kps = Some p \<and>
           score r = Num (max 0 (100 - p)) \<and> 0 \<le> p \<and> p \<le> 90"
proof -
  from req obtain lh rh lk rk la ra where
    l: "kps ''leftHip'' = Some lh" "kps ''rightHip'' = Some rh"
       "kps ''leftKnee'' = Some lk" "kps ''rightKnee'' = Some rk"
       "kps ''leftAnkle'' = Some la" "kps ''rightAnkle'' = Some ra"
    unfolding required_squat by blast
  let ?p1 = "penalty_below (squat_depthRatio lh rh lk rk la) 0.1 25 0.3 5"
  let ?p2 = "penalty_below (squat_kneeCollapseRatio lh rh lk rk) 0.7 30 0.85 10"
  let ?p3 = "(case (kps ''leftShoulder'', kps ''rightShoulder'') of
                (Some leftShoulder, Some rightShoulder) \<Rightarrow>
                  penalty_above (squat_forwardLean leftShoulder rightShoulder lh rh)
                    0.1 20 0.05 5
              | _ \<Rightarrow> 0)"
  let ?p4 = "penalty_over (squat_asymmetry lh rh lk rk) 0.15 15"
  let ?t2 = "squat_knee_rule (squat_kneeCollapseRatio lh rh lk rk)
               (squat_depth_rule (squat_depthRatio lh rh lk rk la) tally0)"
  let ?t3 = "(case (kps ''leftShoulder'', kps ''rightShoulder'') of
                (Some leftShoulder, Some rightShoulder) \<Rightarrow>
                  squat_lean_rule (squat_forwardLean leftShoulder rightShoulder lh rh) ?t2
              | _ \<Rightarrow> ?t2)"
  have p: "squat_penalties kps = Some (?p1 + ?p2 + ?p3 + ?p4)"
    by (simp add: squat_penalties_def l)
  have b1: "0 \<le> ?p1 \<and> ?p1 \<le> 25" by (rule penalty_below_range) simp_all
  have b2: "0 \<le> ?p2 \<and> ?p2 \<le> 30" by (rule penalty_below_range) simp_all
  have b3: "0 \<le> ?p3 \<and> ?p3 \<le> 20"
    using penalty_above_range[of 5 20] by (auto split: option.splits)
  have b4: "0 \<le> ?p4 \<and> ?p4 \<le> 15" by (rule penalty_over_range) simp
  have i1: "?p1 \<in> \<int>" and i2: "?p2 \<in> \<int>" and i4: "?p4 \<in> \<int>"
    by (simp_all add: penalty_Ints)
  have i3: "?p3 \<in> \<int>" by (auto simp: penalty_Ints split: option.splits)
  have s1: "t_score (squat_depth_rule (squat_depthRatio lh rh lk rk la) tally0) = Num (100 - ?p1)"
    by (rule squat_depth_rule_score) (simp_all add: tally0_def)
  have s2: "t_score ?t2 = Num (100 - ?p1 - ?p2)"
    using b1 i1 by (intro squat_knee_rule_score[OF s1]) auto
  have s3: "t_score ?t3 = Num (100 - ?p1 - ?p2 - ?p3)"
  proof (cases "\<exists>a b. kps ''leftShoulder'' = Some a \<and> kps ''rightShoulder'' = Some b")
    case True
    then obtain a b where ab: "kps ''leftShoulder'' = Some a" "kps ''rightShoulder'' = Some b"
      by blast
    have "t_score (squat_lean_rule (squat_forwardLean a b lh rh) ?t2) =
            Num (100 - ?p1 - ?p2 - penalty_above (squat_forwardLean a b lh rh) 0.1 20 0.05 5)"
      using b1 b2 i1 i2 by (intro squat_lean_rule_score[OF s2]) auto
    then show ?thesis by (simp add: ab)
  next
    case False
    then show ?thesis using s2 by (auto split: option.splits)
  qed
  have s4: "t_score (squat_symmetry_rule (squat_asymmetry lh rh lk rk) ?t3) =
              Num (100 - ?p1 - ?p2 - ?p3 - ?p4)"
    using b1 b2 b3 i1 i2 i3 by (intro squat_symmetry_rule_score[OF s3]) auto
  from analyzeSquat_complete[OF kp l] obtain r where
    r: "analyzeSquat pd = Inr r"
    and sc: "score r = Math_max (Num 0)
               (t_score (squat_symmetry_rule (squat_asymmetry lh rh lk rk) ?t3))"
    by auto
  have "score r = Num (max 0 (100 - (?p1 + ?p2 + ?p3 + ?p4)))"
    unfolding sc s4 Math_max_Num by (simp add: algebra_simps)
  with r p b1 b2 b3 b4 show ?thesis by auto
qed

lemma analyzeBench_score:
  assumes kp: "keypoints pd = Some kps"
    and req: "list_all (\<lambda>point. kps point \<noteq> None) bench_requiredPoints"
  shows "\<exists>r p. analyzeBench rnd pd = Inr r \<and> bench_penalties kps = Some p \<and>
           score r = Num (max 0 (100 - p)) \<and> 0 \<le> p \<and> p \<le> 60"
proof -
  from req obtain ls rs le re lw rw where
    l: "kps ''leftShoulder'' = Some ls" "kps ''rightShoulder'' = Some rs"
       "kps ''leftElbow'' = Some le" "kps ''rightElbow'' = Some re"
       "kps ''leftWrist'' = Some lw" "kps ''rightWrist'' = Some rw"
    unfolding required_bench by blast
  let ?p1 = "penalty_above (bench_avgElbowAngle ls rs le re lw rw) 100 25 85 10"
  let ?p2 = "penalty_above (bench_barDeviation ls rs lw rw) 0.08 20 0.04 5"
  let ?p3 = "penalty_over (bench_asymmetry ls rs lw rw) 0.1 15"
  let ?t1 = "bench_elbow_rule (bench_avgElbowAngle ls rs le re lw rw) tally0"
  let ?t2 = "bench_bar_rule (bench_barDeviation ls rs lw rw) ?t1"
  have p: "bench_penalties kps = Some (?p1 + ?p2 + ?p3)"
    by (simp add: bench_penalties_def l)
  have b1: "0 \<le> ?p1 \<and> ?p1 \<le> 25" by (rule penalty_above_range) simp_all
  have b2: "0 \<le> ?p2 \<and> ?p2 \<le> 20" by (rule penalty_above_range) simp_all
  have b3: "0 \<le> ?p3 \<and> ?p3 \<le> 15" by (rule penalty_over_range) simp
  have i1: "?p1 \<in> \<int>" and i2: "?p2 \<in> \<int>" and i3: "?p3 \<in> \<int>"
    by (simp_all add: penalty_Ints)
  have s1: "t_score ?t1 = Num (100 - ?p1)"
    by (rule bench_elbow_rule_score) (simp_all add: tally0_def)
  have s2: "t_score ?t2 = Num (100 - ?p1 - ?p2)"
    using b1 i1 by (intro bench_bar_rule_score[OF s1]) auto
  have s3: "t_score (bench_symmetry_rule (bench_asymmetry ls rs lw rw) ?t2) =
              Num (100 - ?p1 - ?p2 - ?p3)"
    using b1 b2 i1 i2 by (intro bench_symmetry_rule_score[OF s2]) auto
  from analyzeBench_complete[OF kp l, of rnd] obtain r where
    r: "analyzeBench rnd pd = Inr r"
    and sc: "score r = Math_max (Num 0)
               (t_score (bench_symmetry_rule (bench_asymmetry ls rs lw rw) ?t2))"
    by auto
  have "score r = Num (max 0 (100 - (?p1 + ?p2 + ?p3)))"
    unfolding sc s3 Math_max_Num by (simp add: algebra_simps)
  with r p b1 b2 b3 show ?thesis by auto
qed

lemma analyzeDeadlift_score:
  assumes kp: "keypoints pd = Some kps"
    and l: "kps ''leftShoulder'' = Some ls" "kps ''rightShoulder'' = Some rs"
       "kps ''leftHip'' = Some lh" "kps ''rightHip'' = Some rh"
       "kps ''leftKnee'' = Some lk" "kps ''rightKnee'' = Some rk"
  shows "\<exists>r. analyzeDeadlift pd = Inr r \<and>
           score r = Num (max 0 (100 - (deadlift_back_penalty ls rs lh rh
                                        + deadlift_other_penalties kps lh rh lk rk))) \<and>
           0 \<le> deadlift_back_penalty ls rs lh rh \<and> deadlift_back_penalty ls rs lh rh \<le> 30 \<and>
           0 \<le> deadlift_other_penalties kps lh rh lk rk \<and>
           deadlift_other_penalties kps lh rh lk rk \<le> 40"
proof -
  let ?p1 = "penalty_above (Math_abs (deadlift_backAngle ls rs lh rh)) 30 30 15 10"
  let ?p2 = "penalty_below (deadlift_hipToKneeDistance lh rh lk rk) 0.1 25 0.15 5"
  let ?p3 = "(case (kps ''leftAnkle'', kps ''rightAnkle'') of
                (Some leftAnkle, Some rightAnkle) \<Rightarrow>
                  penalty_over (deadlift_kneeOverToes lk rk leftAnkle rightAnkle) 0.08 15
              | _ \<Rightarrow> 0)"
  let ?t1 = "deadlift_back_rule (deadlift_backAngle ls rs lh rh) tally0"
  let ?t2 = "deadlift_hinge_rule (deadlift_hipToKneeDistance lh rh lk rk) ?t1"
  let ?t3 = "(case (kps ''leftAnkle'', kps ''rightAnkle'') of
                (Some leftAnkle, Some rightAnkle) \<Rightarrow>
                  deadlift_knee_rule (deadlift_kneeOverToes lk rk leftAnkle rightAnkle) ?t2
              | _ \<Rightarrow> ?t2)"
  have b1: "0 \<le> ?p1 \<and> ?p1 \<le> 30" by (rule penalty_above_range) simp_all
  have b2: "0 \<le> ?p2 \<and> ?p2 \<le> 25" by (rule penalty_below_range) simp_all
  have b3: "0 \<le> ?p3 \<and> ?p3 \<le> 15"
    using penalty_over_range[of 15] by (auto split: option.splits)
  have i1: "?p1 \<in> \<int>" and i2: "?p2 \<in> \<int>"
    by (simp_all add: penalty_Ints)
  have s1: "t_score ?t1 = Num (100 - ?p1)"
    by (rule deadlift_back_rule_score) (simp_all add: tally0_def)
  have s2: "t_score ?t2 = Num (100 - ?p1 - ?p2)"
    using b1 i1 by (intro deadlift_hinge_rule_score[OF s1]) auto
  have s3: "t_score ?t3 = Num (100 - ?p1 - ?p2 - ?p3)"
  proof (cases "\<exists>a b. kps ''leftAnkle'' = Some a \<and> kps ''rightAnkle'' = Some b")
    case True
    then obtain a b where ab: "kps ''leftAnkle'' = Some a" "kps ''rightAnkle'' = Some b"
      by blast
    have "t_score (deadlift_knee_rule (deadlift_kneeOverToes lk rk a b) ?t2) =
            Num (100 - ?p1 - ?p2 - penalty_over (deadlift_kneeOverToes lk rk a b) 0.08 15)"
      using b1 b2 i1 i2 by (intro deadlift_knee_rule_score[OF s2]) auto
    then show ?thesis by (simp add: ab)
  next
    case False
    then show ?thesis using s2 by (auto split: option.splits)
  qed
  from analyzeDeadlift_complete[OF kp l] obtain r where
    r: "analyzeDeadlift pd = Inr r" and sc: "score r = Math_max (Num 0) (t_score ?t3)"
    by auto
  have "score r = Num (max 0 (100 - (?p1 + (?p2 + ?p3))))"
    unfolding sc s3 Math_max_Num by (simp add: algebra_simps)
  with r b1 b2 b3 show ?thesis
    by (auto simp: deadlift_back_penalty_def deadlift_other_penalties_def)
qed

lemma squat_asymmetry_swap: "squat_asymmetry rh lh rk lk = squat_asymmetry lh rh lk rk"
  by (simp add: squat_asymmetry_def Let_def Math_abs_sub_commute[of "Math_sqrt _" "Math_sqrt _"]
      Math_max_commute[of "Math_sqrt _" "Math_sqrt _"])

lemma bench_asymmetry_swap: "bench_asymmetry rs ls rw lw = bench_asymmetry ls rs lw rw"
  by (simp add: bench_asymmetry_def Let_def Math_abs_sub_commute[of "Math_sqrt _" "Math_sqrt _"]
      Math_max_commute[of "Math_sqrt _" "Math_sqrt _"])

text \<open>\<open>analyze\<close> returns a result on every input: no path reads a landmark that the
  validation has not seen. Only the bench press consults the random draw.\<close>

lemma analyze_returns: "\<exists>r. analyze rnd movement poseData = Inr r"
proof (cases poseData)
  case None
  then show ?thesis by (simp add: analyze_def)
next
  case (Some pd)
  show ?thesis
  proof (cases "keypoints pd")
    case None
    with Some show ?thesis by (simp add: analyze_def)
  next
    case kp: (Some kps)
    have sq: "\<exists>r. analyzeSquat pd = Inr r"
    proof (cases "list_all (\<lambda>point. kps point \<noteq> None) squat_requiredPoints")
      case True
      from analyzeSquat_score[OF kp True] show ?thesis by blast
    next
      case False
      then show ?thesis by (simp add: analyzeSquat_def kp)
    qed
    have be: "\<exists>r. analyzeBench rnd pd = Inr r"
    proof (cases "list_all (\<lambda>point. kps point \<noteq> None) bench_requiredPoints")
      case True
      from analyzeBench_score[OF kp True] show ?thesis by blast
    next
      case False
      then show ?thesis by (simp add: analyzeBench_def kp)
    qed
    have de: "\<exists>r. analyzeDeadlift pd = Inr r"
    proof (cases "list_all (\<lambda>point. kps point \<noteq> None) deadlift_requiredPoints")
      case True
      then obtain ls rs lh rh lk rk where
        "kps ''leftShoulder'' = Some ls" "kps ''rightShoulder'' = Some rs"
        "kps ''leftHip'' = Some lh" "kps ''rightHip'' = Some rh"
        "kps ''leftKnee'' = Some lk" "kps ''rightKnee'' = Some rk"
        unfolding required_deadlift by blast
      from analyzeDeadlift_score[OF kp this] show ?thesis by blast
    next
      case False
      then show ?thesis by (simp add: analyzeDeadlift_def kp)
    qed
    from sq be de show ?thesis
      by (simp add: analyze_def Some kp)
  qed
qed

lemma analyze_random_only_in_bench:
  "movement \<noteq> ''bench'' \<Longrightarrow> analyze rnd movement poseData = analyze rnd' movement poseData"
  by (simp add: analyze_def split: option.splits)

section \<open>Angles in degrees\<close>

lemma lit_Ints: "x \<in> \<int> \<Longrightarrow> \<bar>x\<bar> < 2 ^ 53 \<Longrightarrow> lit x = Num x"
  by (simp add: lit_def fl_Ints)

lemma degrees_of_zero: "Math_abs (js_div (js_mul (zero_signed s) (Num 180)) Math_PI) = Num 0"
  by (cases s) (simp_all add: js_mul_def js_div_def Math_PI_def PI64_def)

lemma degrees_of_half_pi:
  "js_div (js_mul (Num (- (PI64 / 2))) (Num 180)) Math_PI = Num (- 90)"
proof -
  have c1: "fl (- (39792587355159975 / 140737488355328)) = Num (- (4974073419394997 / 17592186044416))"
    using fl_normalI[where x = "- (39792587355159975 / 140737488355328)" and k = "- 44" and m = "- 4974073419394997"] by (simp add: pow2_def)
  have c2: "fl (- (79585174710319952 / 884279719003555)) = Num (- 90)"
    using fl_normalI[where x = "- (79585174710319952 / 884279719003555)" and k = "- 46" and m = "- 6333186975989760"] by (simp add: pow2_def)
  have "js_mul (Num (- (PI64 / 2))) (Num 180) = Num (- (4974073419394997 / 17592186044416))"
    using c1 by (simp add: PI64_def js_mul_Num)
  then show ?thesis
    using c2 by (simp add: Math_PI_def PI64_def js_div_Num)
qed

lemma degrees_of_pi:
  "js_div (js_mul (Num PI64) (Num 180)) Math_PI = Num 180"
  "js_div (js_mul (Num (- PI64)) (Num 180)) Math_PI = Num (- 180)"
proof -
  have c1: "fl (39792587355159975 / 70368744177664) = Num (4974073419394997 / 8796093022208)"
    using fl_normalI[where x = "39792587355159975 / 70368744177664" and k = "- 43" and m = "4974073419394997"] by (simp add: pow2_def)
  have c2: "fl (159170349420639904 / 884279719003555) = Num (180)"
    using fl_normalI[where x = "159170349420639904 / 884279719003555" and k = "- 45" and m = "6333186975989760"] by (simp add: pow2_def)
  have c3: "fl (- (39792587355159975 / 70368744177664)) = Num (- (4974073419394997 / 8796093022208))"
    using fl_normalI[where x = "- (39792587355159975 / 70368744177664)" and k = "- 43" and m = "- 4974073419394997"] by (simp add: pow2_def)
  have c4: "fl (- (159170349420639904 / 884279719003555)) = Num (- 180)"
    using fl_normalI[where x = "- (159170349420639904 / 884279719003555)" and k = "- 45" and m = "- 6333186975989760"] by (simp add: pow2_def)
  have "js_mul (Num PI64) (Num 180) = Num (4974073419394997 / 8796093022208)"
    using c1 by (simp add: PI64_def js_mul_Num)
  then show "js_div (js_mul (Num PI64) (Num 180)) Math_PI = Num 180"
    using c2 by (simp add: Math_PI_def PI64_def js_div_Num)
  have "js_mul (Num (- PI64)) (Num 180) = Num (- (4974073419394997 / 8796093022208))"
    using c3 by (simp add: PI64_def js_mul_Num)
  then show "js_div (js_mul (Num (- PI64)) (Num 180)) Math_PI = Num (- 180)"
    using c4 by (simp add: Math_PI_def PI64_def js_div_Num)
qed

lemma atan2_down:
  "(\<exists>d. y = Num d \<and> d < 0) \<or> y = NegInf \<Longrightarrow> is_zero x \<Longrightarrow>
   Math_atan2 y x = Num (- (PI64 / 2))"
  by (cases x) (auto simp: Math_atan2_def)

lemma atan2_level_right:
  "is_zero y \<Longrightarrow> (\<exists>e. x = Num e \<and> 0 < e) \<or> x = PosInf \<Longrightarrow>
   Math_atan2 y x = zero_signed (signbit y)"
  by (cases y) (auto simp: Math_atan2_def)

lemma atan2_level_left:
  "is_zero y \<Longrightarrow> (\<exists>e. x = Num e \<and> e < 0) \<or> x = NegInf \<Longrightarrow>
   Math_atan2 y x = (if signbit y then Num (- PI64) else Num PI64)"
  by (cases y) (auto simp: Math_atan2_def)

section \<open>Differences of centers\<close>

lemma center_grid:
  assumes "fin (center a b) = Some v"
  shows "\<exists>n::int. v = of_int n * pow2 (- 1074)"
proof -
  have z: "\<exists>n::int. (0::real) = of_int n * pow2 (- 1074)"
    by (rule exI[of _ 0]) simp
  show ?thesis
  proof (cases "js_add a b")
    case (Num r)
    show ?thesis
    proof (cases "r = 0")
      case True
      with Num assms have "v = 0" by (simp add: center_def js_div_def)
      with z show ?thesis by simp
    next
      case False
      with Num have c: "center a b = fl (r / 2)" by (simp add: center_def js_div_def)
      show ?thesis
      proof (cases "fl (r / 2)")
        case n: (Num y)
        with c assms have "v = y" by simp
        with fl_grid[OF n] show ?thesis by simp
      next
        case NegZero
        with c assms have "v = 0" by simp
        with z show ?thesis by simp
      qed (use c assms in auto)
    qed
  next
    case NegZero
    with assms have "v = 0" by (simp add: center_def js_div_def)
    with z show ?thesis by simp
  qed (use assms in \<open>auto simp: center_def js_div_def\<close>)
qed

lemma js_sub_fin_neq:
  "fin u = Some a \<Longrightarrow> fin v = Some b \<Longrightarrow> a \<noteq> b \<Longrightarrow> js_sub u v = fl (a - b)"
  by (cases u; cases v) (auto simp: js_sub_def)

lemma js_sub_fin_eq: "fin u = Some a \<Longrightarrow> fin v = Some a \<Longrightarrow> is_zero (js_sub u v)"
  by (cases u; cases v) (auto simp: js_sub_def fl_def)

lemma grid_less:
  assumes "a = of_int n * pow2 (- 1074)" "b = of_int n' * pow2 (- 1074)" "a < b"
  shows "a - b \<le> - pow2 (- 1074)"
proof -
  have "n < n'" using assms by (simp add: mult_less_cancel_right)
  then have "n - n' \<le> - 1" by simp
  then have "(of_int (n - n') :: real) \<le> - 1" by (metis of_int_le_iff of_int_minus of_int_1)
  then have "of_int (n - n') * pow2 (- 1074) \<le> - 1 * pow2 (- 1074)"
    by (intro mult_right_mono) simp_all
  then show ?thesis by (simp add: assms algebra_simps)
qed

text \<open>Two centers that are finite and differ have a difference that is not zero, of
  the sign of their order.\<close>

lemma center_diff_neg:
  assumes "fin (center a b) = Some s" "fin (center c d) = Some h" "s < h"
  shows "(\<exists>e. js_sub (center a b) (center c d) = Num e \<and> e < 0) \<or>
         js_sub (center a b) (center c d) = NegInf"
proof -
  from center_grid[OF assms(1)] center_grid[OF assms(2)] obtain n n' :: int where
    "s = of_int n * pow2 (- 1074)" "h = of_int n' * pow2 (- 1074)" by blast
  from grid_less[OF this assms(3)] have "s - h \<le> - pow2 (- 1074)" .
  from fl_neg[OF this] js_sub_fin_neq[OF assms(1,2)] assms(3) show ?thesis by auto
qed

lemma center_diff_pos:
  assumes "fin (center a b) = Some s" "fin (center c d) = Some h" "h < s"
  shows "(\<exists>e. js_sub (center a b) (center c d) = Num e \<and> 0 < e) \<or>
         js_sub (center a b) (center c d) = PosInf"
proof -
  from center_grid[OF assms(1)] center_grid[OF assms(2)] obtain n n' :: int where
    "s = of_int n * pow2 (- 1074)" "h = of_int n' * pow2 (- 1074)" by blast
  from grid_less[OF this(2,1) assms(3)] have "pow2 (- 1074) \<le> s - h" by simp
  from fl_pos[OF this] js_sub_fin_neq[OF assms(1,2)] assms(3) show ?thesis by auto
qed

lemma deadlift_backAngle_centers:
  "deadlift_backAngle ls rs lh rh =
     js_div (js_mul (Math_atan2
                       (js_sub (center (kp_y ls) (kp_y rs)) (center (kp_y lh) (kp_y rh)))
                       (js_sub (center (kp_x ls) (kp_x rs)) (center (kp_x lh) (kp_x rh))))
                    (Num 180)) Math_PI"
  by (simp add: deadlift_backAngle_def center_def Let_def)

lemma backAngle_upright:
  assumes "fin (center (kp_x ls) (kp_x rs)) = Some sx" "fin (center (kp_x lh) (kp_x rh)) = Some sx"
    "fin (center (kp_y ls) (kp_y rs)) = Some sy" "fin (center (kp_y lh) (kp_y rh)) = Some hy"
    "sy < hy"
  shows "Math_abs (deadlift_backAngle ls rs lh rh) = Num 90"
  unfolding deadlift_backAngle_centers
    atan2_down[OF center_diff_neg[OF assms(3,4,5)] js_sub_fin_eq[OF assms(1,2)]]
    degrees_of_half_pi
  by simp

lemma backAngle_level_right:
  assumes "fin (center (kp_x ls) (kp_x rs)) = Some sx" "fin (center (kp_x lh) (kp_x rh)) = Some hx"
    "fin (center (kp_y ls) (kp_y rs)) = Some sy" "fin (center (kp_y lh) (kp_y rh)) = Some sy"
    "hx < sx"
  shows "Math_abs (deadlift_backAngle ls rs lh rh) = Num 0"
  unfolding deadlift_backAngle_centers
    atan2_level_right[OF js_sub_fin_eq[OF assms(3,4)] center_diff_pos[OF assms(1,2,5)]]
    degrees_of_zero
  by simp

lemma backAngle_level_left:
  assumes "fin (center (kp_x ls) (kp_x rs)) = Some sx" "fin (center (kp_x lh) (kp_x rh)) = Some hx"
    "fin (center (kp_y ls) (kp_y rs)) = Some sy" "fin (center (kp_y lh) (kp_y rh)) = Some sy"
    "sx < hx"
  shows "Math_abs (deadlift_backAngle ls rs lh rh) = Num 180"
  unfolding deadlift_backAngle_centers
    atan2_level_left[OF js_sub_fin_eq[OF assms(3,4)] center_diff_neg[OF assms(1,2,5)]]
  by (simp add: degrees_of_pi)

lemma analyzeDeadlift_back:
  assumes kp: "keypoints pd = Some kps"
    and l: "kps ''leftShoulder'' = Some ls" "kps ''rightShoulder'' = Some rs"
       "kps ''leftHip'' = Some lh" "kps ''rightHip'' = Some rh"
       "kps ''leftKnee'' = Some lk" "kps ''rightKnee'' = Some rk"
    and a: "Math_abs (deadlift_backAngle ls rs lh rh) = Num a"
  shows "\<exists>r. analyzeDeadlift pd = Inr r \<and>
           detail ''backAngle'' (Inr r) = Some (Num a) \<and>
           (30 < a \<longrightarrow>
              ''Back rounding detected - keep your back straight'' \<in> set (errors r) \<and>
              score r = Num (100 - 30 - deadlift_other_penalties kps lh rh lk rk)) \<and>
           (a \<le> 15 \<longrightarrow>
              ''Good back position!'' \<in> set (feedback r) \<and>
              score r = Num (100 - deadlift_other_penalties kps lh rh lk rk))"
proof -
  from analyzeDeadlift_complete[OF kp l] obtain r es where
    r: "analyzeDeadlift pd = Inr r"
    and fb: "feedback r = t_feedback (deadlift_hinge_rule (deadlift_hipToKneeDistance lh rh lk rk)
                 (deadlift_back_rule (deadlift_backAngle ls rs lh rh) tally0))"
    and er: "errors r = t_errors (deadlift_hinge_rule (deadlift_hipToKneeDistance lh rh lk rk)
                 (deadlift_back_rule (deadlift_backAngle ls rs lh rh) tally0)) @ es"
    and d: "details r = Some [(''backAngle'', Math_abs (deadlift_backAngle ls rs lh rh)),
                   (''hipHinge'', deadlift_hipToKneeDistance lh rh lk rk)]"
    by auto
  from analyzeDeadlift_score[OF kp l] r have
    sc: "score r = Num (max 0 (100 - (deadlift_back_penalty ls rs lh rh
                                        + deadlift_other_penalties kps lh rh lk rk)))"
    and o: "0 \<le> deadlift_other_penalties kps lh rh lk rk"
           "deadlift_other_penalties kps lh rh lk rk \<le> 40"
    by auto
  have 1: "detail ''backAngle'' (Inr r) = Some (Num a)"
    by (simp add: detail_def d a)
  have 2: "''Back rounding detected - keep your back straight'' \<in> set (errors r) \<and>
           score r = Num (100 - 30 - deadlift_other_penalties kps lh rh lk rk)" if "30 < a"
  proof -
    have "deadlift_back_penalty ls rs lh rh = 30"
      using that
      by (simp add: deadlift_back_penalty_def a penalty_above_def js_gt_def js_lt_def lit_Ints)
    moreover have "''Back rounding detected - keep your back straight'' \<in> set (errors r)"
      using that
      by (simp add: er deadlift_back_rule_def deadlift_hinge_rule_def a js_gt_def js_lt_def
          tally0_def lit_Ints)
    ultimately show ?thesis using sc o by (simp add: max_def)
  qed
  have 3: "''Good back position!'' \<in> set (feedback r) \<and>
           score r = Num (100 - deadlift_other_penalties kps lh rh lk rk)" if "a \<le> 15"
  proof -
    have "deadlift_back_penalty ls rs lh rh = 0"
      using that
      by (simp add: deadlift_back_penalty_def a penalty_above_def js_gt_def js_lt_def lit_Ints)
    moreover have "''Good back position!'' \<in> set (feedback r)"
      using that
      by (simp add: fb deadlift_back_rule_def deadlift_hinge_rule_def a js_gt_def js_lt_def
          tally0_def lit_Ints)
    ultimately show ?thesis using sc o by (simp add: max_def)
  qed
  from r 1 2 3 show ?thesis by blast
qed

section \<open>The literals\<close>

lemma fl_zero: "fl 0 = Num 0"
  by (simp add: fl_def)

lemma lit_0_03: "lit 0.03 = Num (1080863910568919 / 36028797018963968)"
  unfolding lit_def using fl_normalI[where x = "3 / 100" and k = "- 58" and m = "8646911284551352"]
  by (simp add: pow2_def)

lemma lit_0_87: "lit 0.87 = Num (7836263351624663 / 9007199254740992)"
  unfolding lit_def using fl_normalI[where x = "87 / 100" and k = "- 53" and m = "7836263351624663"]
  by (simp add: pow2_def)

lemma lit_0_4: "lit 0.4 = Num (3602879701896397 / 9007199254740992)"
  unfolding lit_def using fl_normalI[where x = "2 / 5" and k = "- 54" and m = "7205759403792794"]
  by (simp add: pow2_def)

lemma lit_0_6: "lit 0.6 = Num (5404319552844595 / 9007199254740992)"
  unfolding lit_def using fl_normalI[where x = "3 / 5" and k = "- 53" and m = "5404319552844595"]
  by (simp add: pow2_def)

lemma lit_0_8: "lit 0.8 = Num (3602879701896397 / 4503599627370496)"
  unfolding lit_def using fl_normalI[where x = "4 / 5" and k = "- 53" and m = "7205759403792794"]
  by (simp add: pow2_def)

lemma lit_0_1: "lit 0.1 = Num (3602879701896397 / 36028797018963968)"
  unfolding lit_def using fl_normalI[where x = "1 / 10" and k = "- 56" and m = "7205759403792794"]
  by (simp add: pow2_def)

lemma lit_0_3: "lit 0.3 = Num (5404319552844595 / 18014398509481984)"
  unfolding lit_def using fl_normalI[where x = "3 / 10" and k = "- 54" and m = "5404319552844595"]
  by (simp add: pow2_def)

lemma lit_0_7: "lit 0.7 = Num (3152519739159347 / 4503599627370496)"
  unfolding lit_def using fl_normalI[where x = "7 / 10" and k = "- 53" and m = "6305039478318694"]
  by (simp add: pow2_def)

lemma lit_0_85: "lit 0.85 = Num (7656119366529843 / 9007199254740992)"
  unfolding lit_def using fl_normalI[where x = "17 / 20" and k = "- 53" and m = "7656119366529843"]
  by (simp add: pow2_def)

lemma lit_0_2: "lit 0.2 = Num (3602879701896397 / 18014398509481984)"
  unfolding lit_def using fl_normalI[where x = "1 / 5" and k = "- 55" and m = "7205759403792794"]
  by (simp add: pow2_def)

lemma lit_0_05: "lit 0.05 = Num (3602879701896397 / 72057594037927936)"
  unfolding lit_def using fl_normalI[where x = "1 / 20" and k = "- 57" and m = "7205759403792794"]
  by (simp add: pow2_def)

lemma lit_0_15: "lit 0.15 = Num (5404319552844595 / 36028797018963968)"
  unfolding lit_def using fl_normalI[where x = "3 / 20" and k = "- 55" and m = "5404319552844595"]
  by (simp add: pow2_def)

lemma lit_0_25: "lit 0.25 = Num (1 / 4)"
  unfolding lit_def using fl_normalI[where x = "1 / 4" and k = "- 54" and m = "4503599627370496"]
  by (simp add: pow2_def)

lemma lit_0_5: "lit 0.5 = Num (1 / 2)"
  unfolding lit_def using fl_normalI[where x = "1 / 2" and k = "- 53" and m = "4503599627370496"]
  by (simp add: pow2_def)

lemma lit_0_75: "lit 0.75 = Num (3 / 4)"
  unfolding lit_def using fl_normalI[where x = "3 / 4" and k = "- 53" and m = "6755399441055744"]
  by (simp add: pow2_def)

lemma lit_0_9: "lit 0.9 = Num (8106479329266893 / 9007199254740992)"
  unfolding lit_def using fl_normalI[where x = "9 / 10" and k = "- 53" and m = "8106479329266893"]
  by (simp add: pow2_def)

lemma lit_1: "lit 1 = Num 1" "lit 1.0 = Num 1"
  by (simp_all add: lit_Ints)

lemmas lit_values = lit_0_03 lit_0_87 lit_0_4 lit_0_6 lit_0_8 lit_0_1 lit_0_3 lit_0_7 lit_0_85
  lit_0_2 lit_0_05 lit_0_15 lit_0_25 lit_0_5 lit_0_75 lit_1

section \<open>The evaluators on the concrete frames\<close>

lemma fl_one: "fl 1 = Num 1"
  using fl_Ints[of 1] by simp

lemma js_div_zero_Num: "0 < b \<Longrightarrow> js_div (Num 0) (Num b) = Num 0"
  by (simp add: js_div_def)

lemma pt_sel: "kp_x (pt a b) = lit a" "kp_y (pt a b) = lit b"
  by (simp_all add: pt_def)

lemma frame_keypoints: "keypoints (frame kvs) = Some (map_of kvs)"
  by (simp add: frame_def)

lemma scenarioA_lookup:
  "map_of scenarioA ''leftHip'' = Some (pt 0.4 0.6)"
  "map_of scenarioA ''rightHip'' = Some (pt 0.6 0.6)"
  "map_of scenarioA ''leftKnee'' = Some (pt 0.4 0.8)"
  "map_of scenarioA ''rightKnee'' = Some (pt 0.6 0.8)"
  "map_of scenarioA ''leftAnkle'' = Some (pt 0.4 1.0)"
  "map_of scenarioA ''rightAnkle'' = Some (pt 0.6 1.0)"
  "map_of scenarioA ''leftShoulder'' = None"
  "map_of scenarioA ''rightShoulder'' = None"
  by (simp_all add: scenarioA_def)

lemma scenarioA_required:
  "list_all (\<lambda>point. map_of scenarioA point \<noteq> None) squat_requiredPoints"
  by (simp add: squat_requiredPoints_def scenarioA_lookup)

text \<open>The depth ratio of Scenario A: the quotient of the rounded differences
  \<open>0.8 - 0.6\<close> and \<open>1.0 - 0.6\<close> is \<open>0.5000000000000001\<close>, one unit in the last place
  above \<open>0.5\<close>.\<close>

lemma scenarioA_depth:
  "squat_depthRatio (pt 0.4 0.6) (pt 0.6 0.6) (pt 0.4 0.8) (pt 0.6 0.8) (pt 0.4 1.0) =
     Num (4503599627370497 / 9007199254740992)"
proof -
  have c1: "fl (5404319552844595 / 4503599627370496) = Num (5404319552844595 / 4503599627370496)"
    using fl_normalI[where x = "5404319552844595 / 4503599627370496" and k = "- 52" and m = "5404319552844595"]
    by (simp add: pow2_def)
  have c2: "fl (5404319552844595 / 9007199254740992) = Num (5404319552844595 / 9007199254740992)"
    using fl_normalI[where x = "5404319552844595 / 9007199254740992" and k = "- 53" and m = "5404319552844595"]
    by (simp add: pow2_def)
  have c3: "fl (3602879701896397 / 2251799813685248) = Num (3602879701896397 / 2251799813685248)"
    using fl_normalI[where x = "3602879701896397 / 2251799813685248" and k = "- 52" and m = "7205759403792794"]
    by (simp add: pow2_def)
  have c4: "fl (3602879701896397 / 4503599627370496) = Num (3602879701896397 / 4503599627370496)"
    using fl_normalI[where x = "3602879701896397 / 4503599627370496" and k = "- 53" and m = "7205759403792794"]
    by (simp add: pow2_def)
  have c5: "fl (1801439850948199 / 9007199254740992) = Num (1801439850948199 / 9007199254740992)"
    using fl_normalI[where x = "1801439850948199 / 9007199254740992" and k = "- 55" and m = "7205759403792796"]
    by (simp add: pow2_def)
  have c6: "fl (3602879701896397 / 9007199254740992) = Num (3602879701896397 / 9007199254740992)"
    using fl_normalI[where x = "3602879701896397 / 9007199254740992" and k = "- 54" and m = "7205759403792794"]
    by (simp add: pow2_def)
  have c7: "fl (1801439850948199 / 3602879701896397) = Num (4503599627370497 / 9007199254740992)"
    using fl_normalI[where x = "1801439850948199 / 3602879701896397" and k = "- 53" and m = "4503599627370497"]
    by (simp add: pow2_def)
  show ?thesis
    using c1 c2 c3 c4 c5 c6 c7
    by (simp add: squat_depthRatio_def Let_def pt_sel lit_values[simplified] js_sub_Num
        js_div_Num)
qed

lemma scenarioA_knee:
  "squat_kneeCollapseRatio (pt 0.4 0.6) (pt 0.6 0.6) (pt 0.4 0.8) (pt 0.6 0.8) = Num 1"
proof -
  have c1: "fl (900719925474099 / 4503599627370496) = Num (900719925474099 / 4503599627370496)"
    using fl_normalI[where x = "900719925474099 / 4503599627370496" and k = "- 55" and m = "7205759403792792"]
    by (simp add: pow2_def)
  show ?thesis
    using c1
    by (simp add: squat_kneeCollapseRatio_def Let_def pt_sel lit_values[simplified] js_sub_Num
        js_div_Num fl_one)
qed

lemma scenarioA_symmetry:
  "squat_asymmetry (pt 0.4 0.6) (pt 0.6 0.6) (pt 0.4 0.8) (pt 0.6 0.8) = Num 0"
proof -
  have c1: "fl (1801439850948199 / 9007199254740992) = Num (1801439850948199 / 9007199254740992)"
    using fl_normalI[where x = "1801439850948199 / 9007199254740992" and k = "- 55" and m = "7205759403792796"]
    by (simp add: pow2_def)
  have c2: "fl (3245185536584269429559381343601 / 81129638414606681695789005144064) = Num (5764607523034239 / 144115188075855872)"
    using fl_normalI[where x = "3245185536584269429559381343601 / 81129638414606681695789005144064" and k = "- 57" and m = "5764607523034239"]
    by (simp add: pow2_def)
  have c3: "fl (5764607523034239 / 144115188075855872) = Num (5764607523034239 / 144115188075855872)"
    using fl_normalI[where x = "5764607523034239 / 144115188075855872" and k = "- 57" and m = "5764607523034239"]
    by (simp add: pow2_def)
  have leg: "fl (sqrt (5764607523034239 / 144115188075855872)) = Num (1801439850948199 / 9007199254740992)"
  proof -
    have lb: "14411518807585591 / 72057594037927936 < sqrt (5764607523034239 / 144115188075855872)"
      by (rule real_less_rsqrt) (simp add: power2_eq_square)
    have ub: "sqrt (5764607523034239 / 144115188075855872) < 14411518807585593 / 72057594037927936"
      by (rule real_less_lsqrt) (simp_all add: power2_eq_square)
    show ?thesis
      using fl_betweenI[where x = "sqrt (5764607523034239 / 144115188075855872)" and m = "7205759403792796" and k = "- 55"] lb ub
      by (simp add: pow2_def)
  qed
  show ?thesis
    using c1 c2 c3 leg
    by (simp add: squat_asymmetry_def Let_def pt_sel lit_values[simplified] js_sub_Num
        fl_zero power2_eq_square Math_max_Num js_div_zero_Num)
qed

lemma scenarioA_bottom: "detectBottomPosition (frame scenarioA) = Inr False"
proof -
  have c1: "fl (5404319552844595 / 4503599627370496) = Num (5404319552844595 / 4503599627370496)"
    using fl_normalI[where x = "5404319552844595 / 4503599627370496" and k = "- 52" and m = "5404319552844595"]
    by (simp add: pow2_def)
  have c2: "fl (5404319552844595 / 9007199254740992) = Num (5404319552844595 / 9007199254740992)"
    using fl_normalI[where x = "5404319552844595 / 9007199254740992" and k = "- 53" and m = "5404319552844595"]
    by (simp add: pow2_def)
  have c3: "fl (3602879701896397 / 2251799813685248) = Num (3602879701896397 / 2251799813685248)"
    using fl_normalI[where x = "3602879701896397 / 2251799813685248" and k = "- 52" and m = "7205759403792794"]
    by (simp add: pow2_def)
  have c4: "fl (3602879701896397 / 4503599627370496) = Num (3602879701896397 / 4503599627370496)"
    using fl_normalI[where x = "3602879701896397 / 4503599627370496" and k = "- 53" and m = "7205759403792794"]
    by (simp add: pow2_def)
  show ?thesis
    using c1 c2 c3 c4
    unfolding detectBottomPosition_ok[OF frame_keypoints scenarioA_lookup(1-4)]
    by (simp add: pt_sel lit_values[simplified] js_div_Num js_gt_def js_lt_def)
qed

lemma scenarioA_rules:
  "squat_symmetry_rule (Num 0) (squat_knee_rule (Num 1)
     (squat_depth_rule (Num (4503599627370497 / 9007199254740992)) tally0)) =
     \<lparr>t_score = Num 100, t_feedback = [''Excellent depth!'', ''Great knee tracking!''],
      t_errors = []\<rparr>"
  by (simp add: squat_symmetry_rule_def squat_knee_rule_def squat_depth_rule_def tally0_def
      js_lt_def js_gt_def lit_values[simplified])

lemma scenarioA_squat:
  "analyzeSquat (frame scenarioA) =
     Inr \<lparr>score = Num 100,
          feedback = [''Excellent depth!'', ''Great knee tracking!''],
          errors = [],
          repCompleted = Some False,
          details = Some [(''depth'', Num (4503599627370497 / 9007199254740992)), (''kneeTracking'', Num 1),
                          (''forwardLean'', Num 0), (''symmetry'', Num 0)]\<rparr>"
  using scenarioA_required
  by (simp add: analyzeSquat_def frame_keypoints scenarioA_lookup
      scenarioA_depth[simplified] scenarioA_knee[simplified] scenarioA_symmetry[simplified]
      Let_def scenarioA_rules[simplified] scenarioA_bottom Math_max_Num js_gt_def js_lt_def
      lit_values[simplified])

lemma is_zero_zero_signed [simp]: "is_zero (zero_signed s)"
  by (cases s) simp_all

lemma js_mul_zero_left: "js_mul (Num 0) b = NaN \<or> is_zero (js_mul (Num 0) b)"
  by (cases b) (simp_all add: js_mul_def)

lemma js_add_zeros:
  "a = NaN \<or> is_zero a \<Longrightarrow> b = NaN \<or> is_zero b \<Longrightarrow> js_add a b = NaN \<or> is_zero (js_add a b)"
  by (cases a; cases b) (auto simp: fl_zero)

lemma js_div_zeros: "a = NaN \<or> is_zero a \<Longrightarrow> b = NaN \<or> is_zero b \<Longrightarrow> js_div a b = NaN"
  by (auto simp: js_div_def)

text \<open>When the first point lies on the vertex, the dot product and the product of the
  lengths are both zero (or NaN), and the angle is NaN whatever the third point is.\<close>

lemma calculateAngle_degenerate:
  assumes "kp_x p = Num a" "kp_x q = Num a" "kp_y p = Num b" "kp_y q = Num b"
  shows "calculateAngle p q r = NaN"
proof -
  let ?vx = "js_sub (kp_x r) (Num a)" and ?vy = "js_sub (kp_y r) (Num b)"
  let ?mag2 = "Math_sqrt (js_add (Math_pow2 ?vx) (Math_pow2 ?vy))"
  let ?dot = "js_add (js_mul (Num 0) ?vx) (js_mul (Num 0) ?vy)"
  have d: "?dot = NaN \<or> is_zero ?dot"
    by (rule js_add_zeros[OF js_mul_zero_left js_mul_zero_left])
  have "js_div ?dot (js_mul (Num 0) ?mag2) = NaN"
    by (rule js_div_zeros[OF d js_mul_zero_left])
  then show ?thesis
    by (simp add: calculateAngle_def Let_def assms js_sub_self fl_zero NaN_propagates)
qed

lemma collapsedArm_lookup:
  "map_of collapsedArm ''leftShoulder'' = Some (pt 0.3 0.3)"
  "map_of collapsedArm ''rightShoulder'' = Some (pt 0.7 0.3)"
  "map_of collapsedArm ''leftElbow'' = Some (pt 0.3 0.3)"
  "map_of collapsedArm ''rightElbow'' = Some (pt 0.7 0.5)"
  "map_of collapsedArm ''leftWrist'' = Some (pt 0.5 0.5)"
  "map_of collapsedArm ''rightWrist'' = Some (pt 0.5 0.5)"
  by (simp_all add: collapsedArm_def)

lemma collapsedArm_angle: "calculateAngle (pt 0.3 0.3) (pt 0.3 0.3) (pt 0.5 0.5) = NaN"
proof -
  have x: "kp_x (pt 0.3 0.3) = Num (5404319552844595 / 18014398509481984)"
    and y: "kp_y (pt 0.3 0.3) = Num (5404319552844595 / 18014398509481984)"
    by (simp_all add: pt_sel lit_values[simplified])
  show ?thesis by (rule calculateAngle_degenerate[OF x x y y])
qed

lemma collapsedArm_elbow:
  "bench_avgElbowAngle (pt 0.3 0.3) (pt 0.7 0.3) (pt 0.3 0.3) (pt 0.7 0.5)
     (pt 0.5 0.5) (pt 0.5 0.5) = NaN"
  by (simp add: bench_avgElbowAngle_def Let_def collapsedArm_angle[simplified] NaN_propagates)

lemma scenarioC_lookup:
  "map_of scenarioC ''leftShoulder'' = Some (pt 0.3 0.3)"
  "map_of scenarioC ''rightShoulder'' = Some (pt 0.7 0.3)"
  "map_of scenarioC ''leftElbow'' = Some (pt 0.3 0.5)"
  "map_of scenarioC ''rightElbow'' = Some (pt 0.7 0.5)"
  "map_of scenarioC ''leftWrist'' = Some (pt 0.5 0.5)"
  "map_of scenarioC ''rightWrist'' = Some (pt 0.5 0.5)"
  by (simp_all add: scenarioC_def)

lemma unevenAnkles_lookup:
  "map_of unevenAnkles ''leftHip'' = Some (pt 0.25 0.25)"
  "map_of unevenAnkles ''rightHip'' = Some (pt 0.75 0.25)"
  "map_of unevenAnkles ''leftKnee'' = Some (pt 0.25 0.5)"
  "map_of unevenAnkles ''rightKnee'' = Some (pt 0.75 0.5)"
  "map_of unevenAnkles ''leftAnkle'' = Some (pt 0.25 0.75)"
  "map_of unevenAnkles ''rightAnkle'' = Some (pt 0.75 1)"
  by (simp_all add: unevenAnkles_def)

lemma unevenAnkles_depth:
  "squat_depthRatio (pt 0.25 0.25) (pt 0.75 0.25) (pt 0.25 0.5) (pt 0.75 0.5)
     (pt 0.25 0.75) = Num 0.5"
proof -
  have c1: "fl (1 / 2) = Num (1 / 2)"
    using fl_normalI[where x = "1 / 2" and k = "- 53" and m = "4503599627370496"]
    by (simp add: pow2_def)
  have c2: "fl (1 / 4) = Num (1 / 4)"
    using fl_normalI[where x = "1 / 4" and k = "- 54" and m = "4503599627370496"]
    by (simp add: pow2_def)
  have c3: "fl (1) = Num (1)"
    using fl_normalI[where x = "1" and k = "- 52" and m = "4503599627370496"]
    by (simp add: pow2_def)
  show ?thesis
    using c1 c2 c3
    by (simp add: squat_depthRatio_def Let_def pt_sel lit_values[simplified] js_sub_Num
        js_div_Num)
qed

lemma unevenAnkles_spec_depth:
  "spec_depthRatio (pt 0.25 0.25) (pt 0.75 0.25) (pt 0.25 0.5) (pt 0.75 0.5)
     (pt 0.25 0.75) (pt 0.75 1) = lit 0.4"
proof -
  have c1: "fl (1 / 2) = Num (1 / 2)"
    using fl_normalI[where x = "1 / 2" and k = "- 53" and m = "4503599627370496"]
    by (simp add: pow2_def)
  have c2: "fl (1 / 4) = Num (1 / 4)"
    using fl_normalI[where x = "1 / 4" and k = "- 54" and m = "4503599627370496"]
    by (simp add: pow2_def)
  have c3: "fl (1) = Num (1)"
    using fl_normalI[where x = "1" and k = "- 52" and m = "4503599627370496"]
    by (simp add: pow2_def)
  have c4: "fl (7 / 4) = Num (7 / 4)"
    using fl_normalI[where x = "7 / 4" and k = "- 52" and m = "7881299347898368"]
    by (simp add: pow2_def)
  have c5: "fl (7 / 8) = Num (7 / 8)"
    using fl_normalI[where x = "7 / 8" and k = "- 53" and m = "7881299347898368"]
    by (simp add: pow2_def)
  have c6: "fl (5 / 8) = Num (5 / 8)"
    using fl_normalI[where x = "5 / 8" and k = "- 53" and m = "5629499534213120"]
    by (simp add: pow2_def)
  have c7: "fl (2 / 5) = Num (3602879701896397 / 9007199254740992)"
    using fl_normalI[where x = "2 / 5" and k = "- 54" and m = "7205759403792794"]
    by (simp add: pow2_def)
  show ?thesis
    using c1 c2 c3 c4 c5 c6 c7
    by (simp add: spec_depthRatio_def Let_def pt_sel lit_values[simplified] js_sub_Num
        js_div_Num)
qed

lemma offsetBoundary_lookup:
  "map_of offsetBoundary ''leftShoulder'' = Some (pt 0.03 0.25)"
  "map_of offsetBoundary ''rightShoulder'' = Some (pt 0.87 0.25)"
  "map_of offsetBoundary ''leftHip'' = Some (pt 0.4 0.5)"
  "map_of offsetBoundary ''rightHip'' = Some (pt 0.6 0.5)"
  "map_of offsetBoundary ''leftKnee'' = Some (pt 0.5 0.75)"
  "map_of offsetBoundary ''rightKnee'' = Some (pt 0.5 0.75)"
  by (simp_all add: offsetBoundary_def)

text \<open>The sum \<open>0.03 + 0.87\<close> rounds down, and the computed offset is
  \<open>0.04999999999999999\<close>.\<close>

lemma offsetBoundary_offset:
  "torso_offset (pt 0.03 0.25) (pt 0.87 0.25) (pt 0.4 0.5) (pt 0.6 0.5) =
     Num (900719925474099 / 18014398509481984)"
proof -
  have c1: "fl (32425917317067571 / 36028797018963968) = Num (8106479329266893 / 9007199254740992)"
    using fl_normalI[where x = "32425917317067571 / 36028797018963968" and k = "- 53" and m = "8106479329266893"]
    by (simp add: pow2_def)
  have c2: "fl (8106479329266893 / 18014398509481984) = Num (8106479329266893 / 18014398509481984)"
    using fl_normalI[where x = "8106479329266893 / 18014398509481984" and k = "- 54" and m = "8106479329266893"]
    by (simp add: pow2_def)
  have c3: "fl (1) = Num (1)"
    using fl_normalI[where x = "1" and k = "- 52" and m = "4503599627370496"]
    by (simp add: pow2_def)
  have c4: "fl (1 / 2) = Num (1 / 2)"
    using fl_normalI[where x = "1 / 2" and k = "- 53" and m = "4503599627370496"]
    by (simp add: pow2_def)
  have c5: "fl (- (900719925474099 / 18014398509481984)) = Num (- (900719925474099 / 18014398509481984))"
    using fl_normalI[where x = "- (900719925474099 / 18014398509481984)" and k = "- 57" and m = "- 7205759403792792"]
    by (simp add: pow2_def)
  show ?thesis
    using c1 c2 c3 c4 c5
    by (simp add: torso_offset_def center_def pt_sel lit_values[simplified] js_sub_Num
        js_div_Num)
qed

lemma offsetBoundary_exact:
  "exact_offset (map_of offsetBoundary) = Some (3602879701896397 / 72057594037927936)"
  by (simp add: exact_offset_def offsetBoundary_lookup pt_sel lit_values[simplified])

lemma deadliftFrame_lookup:
  "map_of (deadliftFrame sx sy) ''leftShoulder'' = Some (pt sx sy)"
  "map_of (deadliftFrame sx sy) ''rightShoulder'' = Some (pt sx sy)"
  "map_of (deadliftFrame sx sy) ''leftHip'' = Some (pt 0.5 0.5)"
  "map_of (deadliftFrame sx sy) ''rightHip'' = Some (pt 0.5 0.5)"
  "map_of (deadliftFrame sx sy) ''leftKnee'' = Some (pt 0.5 0.75)"
  "map_of (deadliftFrame sx sy) ''rightKnee'' = Some (pt 0.5 0.75)"
  "map_of (deadliftFrame sx sy) ''leftAnkle'' = None"
  "map_of (deadliftFrame sx sy) ''rightAnkle'' = None"
  by (simp_all add: deadliftFrame_def)

lemma deadliftFrame_required:
  "list_all (\<lambda>point. map_of (deadliftFrame sx sy) point \<noteq> None) deadlift_requiredPoints"
  by (simp add: deadlift_requiredPoints_def deadliftFrame_lookup)

lemma center_values:
  "center (lit 0.25) (lit 0.25) = Num (1 / 4)"
  "center (lit 0.5) (lit 0.5) = Num (1 / 2)"
  "center (lit 0.75) (lit 0.75) = Num (3 / 4)"
proof -
  have c1: "fl (1 / 2) = Num (1 / 2)"
    using fl_normalI[where x = "1 / 2" and k = "- 53" and m = "4503599627370496"]
    by (simp add: pow2_def)
  have c2: "fl (1 / 4) = Num (1 / 4)"
    using fl_normalI[where x = "1 / 4" and k = "- 54" and m = "4503599627370496"]
    by (simp add: pow2_def)
  have c3: "fl (1) = Num (1)"
    using fl_normalI[where x = "1" and k = "- 52" and m = "4503599627370496"]
    by (simp add: pow2_def)
  have c4: "fl (3 / 2) = Num (3 / 2)"
    using fl_normalI[where x = "3 / 2" and k = "- 52" and m = "6755399441055744"]
    by (simp add: pow2_def)
  have c5: "fl (3 / 4) = Num (3 / 4)"
    using fl_normalI[where x = "3 / 4" and k = "- 53" and m = "6755399441055744"]
    by (simp add: pow2_def)
  show "center (lit 0.25) (lit 0.25) = Num (1 / 4)"
    "center (lit 0.5) (lit 0.5) = Num (1 / 2)"
    "center (lit 0.75) (lit 0.75) = Num (3 / 4)"
    using c1 c2 c3 c4 c5
    by (simp_all add: center_def lit_values[simplified] js_div_Num)
qed

lemma deadliftFrame_centers:
  "fin (center (kp_x (pt 0.25 b)) (kp_x (pt 0.25 b'))) = Some (1 / 4)"
  "fin (center (kp_x (pt 0.5 b)) (kp_x (pt 0.5 b'))) = Some (1 / 2)"
  "fin (center (kp_x (pt 0.75 b)) (kp_x (pt 0.75 b'))) = Some (3 / 4)"
  "fin (center (kp_y (pt a 0.25)) (kp_y (pt a' 0.25))) = Some (1 / 4)"
  "fin (center (kp_y (pt a 0.5)) (kp_y (pt a' 0.5))) = Some (1 / 2)"
  by (simp_all add: pt_sel center_values[simplified])

lemma deadliftFrame_hinge:
  "deadlift_hipToKneeDistance (pt 0.5 0.5) (pt 0.5 0.5) (pt 0.5 0.75) (pt 0.5 0.75) = Num 0.25"
proof -
  have s: "sqrt (1 / 16) = 1 / 4"
    by (rule real_sqrt_unique) (simp_all add: power2_eq_square)
  have c1: "fl (- (1 / 4)) = Num (- (1 / 4))"
    using fl_normalI[where x = "- (1 / 4)" and k = "- 54" and m = "- 4503599627370496"]
    by (simp add: pow2_def)
  have c2: "fl (1 / 16) = Num (1 / 16)"
    using fl_normalI[where x = "1 / 16" and k = "- 56" and m = "4503599627370496"]
    by (simp add: pow2_def)
  have c3: "fl (1 / 4) = Num (1 / 4)"
    using fl_normalI[where x = "1 / 4" and k = "- 54" and m = "4503599627370496"]
    by (simp add: pow2_def)
  show ?thesis
    using c1 c2 c3
    by (simp add: deadlift_hipToKneeDistance_def Let_def pt_sel center_values[simplified, unfolded center_def]
        js_sub_Num fl_zero s power2_eq_square)
qed

lemma deadliftFrame_other_penalties:
  "deadlift_other_penalties (map_of (deadliftFrame sx sy)) (pt 0.5 0.5) (pt 0.5 0.5)
     (pt 0.5 0.75) (pt 0.5 0.75) = 0"
  by (simp add: deadlift_other_penalties_def deadliftFrame_lookup deadliftFrame_hinge[simplified]
      penalty_below_def js_lt_def lit_values[simplified])

lemma levelLeft_backAngle:
  "Math_abs (deadlift_backAngle (pt 0.25 0.5) (pt 0.25 0.5) (pt 0.5 0.5) (pt 0.5 0.5)) = Num 180"
  by (rule backAngle_level_left[OF deadliftFrame_centers(1,2,5,5)]) simp

lemma levelLeft_offset:
  "torso_offset (pt 0.25 0.5) (pt 0.25 0.5) (pt 0.5 0.5) (pt 0.5 0.5) = Num (1 / 4)"
proof -
  have c1: "fl (- (1 / 4)) = Num (- (1 / 4))"
    using fl_normalI[where x = "- (1 / 4)" and k = "- 54" and m = "- 4503599627370496"]
    by (simp add: pow2_def)
  show ?thesis
    using c1
    by (simp add: torso_offset_def pt_sel center_values[simplified] js_sub_Num)
qed

lemma upright_offset:
  "torso_offset (pt 0.5 0.25) (pt 0.5 0.25) (pt 0.5 0.5) (pt 0.5 0.5) = Num 0"
  by (simp add: torso_offset_def pt_sel center_values[simplified] js_sub_self)

lemma levelLeft_rules:
  "deadlift_hinge_rule (Num (1 / 4))
     (deadlift_back_rule
        (deadlift_backAngle (pt 0.25 0.5) (pt 0.25 0.5) (pt 0.5 0.5) (pt 0.5 0.5)) tally0) =
     \<lparr>t_score = Num 70, t_feedback = [''Excellent hip hinge pattern!''],
      t_errors = [''Back rounding detected - keep your back straight'']\<rparr>"
  by (simp add: deadlift_hinge_rule_def deadlift_back_rule_def levelLeft_backAngle[simplified] tally0_def
      js_lt_def js_gt_def js_sub_Ints lit_Ints lit_values[simplified])

lemma levelLeft_rep: "detectDeadliftMovement (frame (deadliftFrame 0.25 0.5)) = Inr False"
  unfolding detectDeadliftMovement_ok[OF frame_keypoints deadliftFrame_lookup(3,4,1,2)]
    levelLeft_offset
  by (simp add: js_lt_def lit_values[simplified])

lemma levelLeft_deadlift:
  "analyzeDeadlift (frame (deadliftFrame 0.25 0.5)) =
     Inr \<lparr>score = Num 70,
          feedback = [''Excellent hip hinge pattern!''],
          errors = [''Back rounding detected - keep your back straight''],
          repCompleted = Some False,
          details = Some [(''backAngle'', Num 180), (''hipHinge'', Num 0.25)]\<rparr>"
  using deadliftFrame_required[of "0.25" "0.5"]
  by (simp add: analyzeDeadlift_def frame_keypoints deadliftFrame_lookup Let_def
      levelLeft_backAngle[simplified] deadliftFrame_hinge[simplified] levelLeft_rules[simplified]
      levelLeft_rep[simplified] Math_max_Num)

section \<open>The claims\<close>



text \<open>
  C2. For a pose frame that lacks a landmark its movement requires, \<open>analyze\<close> returns
  score 0, one feedback string, one error string and no details. The result is a
  constant of the movement: no coordinate of the frame and no random draw enters it.
\<close>

theorem incomplete_pose_result:
  assumes "keypoints pd = Some kps"
    and "movement \<in> {''squat'', ''bench'', ''deadlift''}"
    and "\<not> hasRequiredPoints movement kps"
  shows "analyze rnd movement (Some pd) = Inr (incompleteFeedback movement) \<and>
         score (incompleteFeedback movement) = Num 0 \<and>
         length (feedback (incompleteFeedback movement)) = 1 \<and>
         length (errors (incompleteFeedback movement)) = 1 \<and>
         details (incompleteFeedback movement) = None"
proof -
  consider "movement = ''squat''" | "movement = ''bench''" | "movement = ''deadlift''"
    using assms(2) by blast
  then have "analyze rnd movement (Some pd) = Inr (incompleteFeedback movement)"
  proof cases
    case 1
    with assms(1,3) show ?thesis
      by (simp add: analyze_def analyzeSquat_def hasRequiredPoints_def requiredPoints_def
          incompleteFeedback_def)
  next
    case 2
    with assms(1,3) show ?thesis
      by (simp add: analyze_def analyzeBench_def hasRequiredPoints_def requiredPoints_def
          incompleteFeedback_def)
  next
    case 3
    with assms(1,3) show ?thesis
      by (simp add: analyze_def analyzeDeadlift_def hasRequiredPoints_def requiredPoints_def
          incompleteFeedback_def)
  qed
  then show ?thesis by (simp add: incompleteFeedback_def)
qed

text \<open>Scenario B, the squat without the right ankle.\<close>

theorem incomplete_pose_result_witness:
  "\<not> hasRequiredPoints ''squat'' (map_of scenarioB) \<and>
   analyze (1 / 2) ''squat'' (Some (frame scenarioB)) =
     Inr \<lparr>score = Num 0,
          feedback = [''Position yourself so your full body is visible''],
          errors = [''Incomplete pose detection''],
          repCompleted = None, details = None\<rparr>"
proof -
  have k: "keypoints (frame scenarioB) = Some (map_of scenarioB)"
    by (simp add: frame_def)
  have h: "\<not> hasRequiredPoints ''squat'' (map_of scenarioB)"
    by (simp add: hasRequiredPoints_def requiredPoints_def squat_requiredPoints_def
        scenarioB_def)
  have m: "''squat'' \<in> {''squat'', ''bench'', ''deadlift''}" by simp
  from incomplete_pose_result[OF k m h, of "1 / 2"] h show ?thesis
    by (simp add: incompleteFeedback_def)
qed

text \<open>
  C3. The angle between points is claimed to lie in \<open>[0, 180]\<close> for every triple of
  points, with a safe default when a ray from the vertex has length zero. On such a
  triple the cosine is \<open>0 / 0\<close>, which is NaN; NaN passes the clamp and the inverse
  cosine, and \<open>calculateAngle\<close> returns NaN. Nothing raises. The bench evaluator reaches
  this with a frame whose left elbow lies on the left shoulder, and reports NaN as the
  elbow angle.
\<close>

theorem calculateAngle_zero_length_is_NaN:
  "calculateAngle (pt 0.3 0.3) (pt 0.3 0.3) (pt 0.5 0.5) = NaN \<and>
   detail ''elbowAngle'' (analyze rnd ''bench'' (Some (frame collapsedArm))) = Some NaN"
proof -
  from analyzeBench_complete[OF frame_keypoints collapsedArm_lookup, of rnd]
  have "detail ''elbowAngle'' (analyzeBench rnd (frame collapsedArm)) = Some NaN"
    by (auto simp: detail_def collapsedArm_elbow[simplified])
  with collapsedArm_angle show ?thesis
    by (simp add: analyze_def frame_keypoints)
qed

text \<open>
  C4. The depth ratio is claimed to divide by the average ankle height minus the average
  hip height. \<open>analyzeSquat\<close> divides by the height of the left ankle minus the average
  hip height: on a frame whose ankles are at heights 0.75 and 1 it reports 0.5, where the
  ratio with the average ankle height is 0.4 (the binary64 number written \<open>0.4\<close>).
\<close>

theorem depth_uses_left_ankle_only:
  "detail ''depth'' (analyze rnd ''squat'' (Some (frame unevenAnkles))) = Some (Num 0.5) \<and>
   spec_depthRatio (pt 0.25 0.25) (pt 0.75 0.25) (pt 0.25 0.5) (pt 0.75 0.5)
     (pt 0.25 0.75) (pt 0.75 1) = lit 0.4 \<and>
   lit 0.4 \<noteq> Num 0.5"
proof -
  from analyzeSquat_complete[OF frame_keypoints unevenAnkles_lookup]
  have "detail ''depth'' (analyzeSquat (frame unevenAnkles)) = Some (Num 0.5)"
    by (auto simp: detail_def unevenAnkles_depth[simplified])
  moreover have "lit 0.4 \<noteq> Num 0.5"
    by (simp add: lit_values[simplified])
  ultimately show ?thesis
    using unevenAnkles_spec_depth by (simp add: analyze_def frame_keypoints)
qed

text \<open>
  C5. \<open>analyze\<close> is claimed to return identical results on identical inputs. For the
  bench press the \<open>repCompleted\<close> flag is the comparison of a fresh random draw with
  0.8: on Scenario C a draw of 0.9 gives \<open>true\<close> and a draw of 0.1 gives \<open>false\<close>.
\<close>

theorem bench_rep_follows_random_draw:
  "map_option repCompleted (returned (analyze 0.9 ''bench'' (Some (frame scenarioC)))) =
     Some (Some True) \<and>
   map_option repCompleted (returned (analyze 0.1 ''bench'' (Some (frame scenarioC)))) =
     Some (Some False)"
  using analyzeBench_complete[OF frame_keypoints scenarioC_lookup, where rnd = "0.9"]
    analyzeBench_complete[OF frame_keypoints scenarioC_lookup, where rnd = "0.1"]
  by (auto simp: analyze_def frame_keypoints returned_def js_gt_def js_lt_def
      lit_0_9[simplified] lit_values[simplified])

text \<open>
  C6. For a movement identifier other than squat, bench and deadlift, for a null pose
  and for a pose without keypoints, \<open>analyze\<close> returns (and does not raise) the
  result with score 0, no feedback and no errors.
\<close>

theorem unknown_movement_or_absent_pose:
  assumes "movement \<notin> {''squat'', ''bench'', ''deadlift''} \<or> poseData = None \<or>
           (\<exists>pd. poseData = Some pd \<and> keypoints pd = None)"
  shows "analyze rnd movement poseData =
           Inr \<lparr>score = Num 0, feedback = [], errors = [],
                repCompleted = None, details = None\<rparr>"
  using assms by (auto simp: analyze_def emptyFeedback_def split: option.splits)

text \<open>An unknown movement, a null pose and a pose without keypoints.\<close>

theorem unknown_movement_or_absent_pose_witness:
  "analyze (1 / 2) ''lunge'' (Some (frame scenarioA)) =
     Inr \<lparr>score = Num 0, feedback = [], errors = [], repCompleted = None, details = None\<rparr> \<and>
   analyze (1 / 2) ''squat'' None =
     Inr \<lparr>score = Num 0, feedback = [], errors = [], repCompleted = None, details = None\<rparr> \<and>
   analyze (1 / 2) ''squat'' (Some \<lparr>keypoints = None, timestamp = Num 0\<rparr>) =
     Inr \<lparr>score = Num 0, feedback = [], errors = [], repCompleted = None, details = None\<rparr>"
  using unknown_movement_or_absent_pose[of "''lunge''" "Some (frame scenarioA)" "1 / 2"]
    unknown_movement_or_absent_pose[of "''squat''" None "1 / 2"]
    unknown_movement_or_absent_pose[of "''squat''"
      "Some \<lparr>keypoints = None, timestamp = Num 0\<rparr>" "1 / 2"]
  by simp

text \<open>
  C7 as first stated fails in one detail: on Scenario A the depth ratio that the squat
  evaluator reports is not \<open>0.5\<close>. The differences \<open>0.8 - 0.6\<close> and \<open>1.0 - 0.6\<close> are
  rounded, and their quotient is the next binary64 number above \<open>0.5\<close>, which prints as
  \<open>0.5000000000000001\<close>.
\<close>

theorem scenarioA_depth_is_not_half:
  "detail ''depth'' (analyze (1 / 2) ''squat'' (Some (frame scenarioA))) =
     Some (Num (4503599627370497 / 2 ^ 53)) \<and>
   detail ''depth'' (analyze (1 / 2) ''squat'' (Some (frame scenarioA))) \<noteq> Some (Num 0.5)"
  by (simp add: analyze_def frame_keypoints scenarioA_squat[simplified] detail_def)

text \<open>
  C7, as amended. On Scenario A the squat evaluator returns score 100, no errors, the
  feedback \<open>Excellent depth!\<close> and \<open>Great knee tracking!\<close>, the details depth
  \<open>0.5000000000000001\<close> (which is \<open>4503599627370497 / 2\<^sup>5\<^sup>3\<close>), knee tracking 1 and
  symmetry 0 (and forward lean 0, there being no shoulders), and \<open>repCompleted\<close> false.
\<close>

theorem scenarioA_result:
  "analyze rnd ''squat'' (Some (frame scenarioA)) =
     Inr \<lparr>score = Num 100,
          feedback = [''Excellent depth!'', ''Great knee tracking!''],
          errors = [],
          repCompleted = Some False,
          details = Some [(''depth'', Num (4503599627370497 / 2 ^ 53)), (''kneeTracking'', Num 1.0),
                          (''forwardLean'', Num 0), (''symmetry'', Num 0)]\<rparr>"
  by (simp add: analyze_def frame_keypoints scenarioA_squat[simplified])

text \<open>
  C8. For a squat or bench frame with the required landmarks, swapping every left
  landmark with its right counterpart leaves the reported symmetry metric unchanged.
\<close>

theorem symmetry_invariant_under_label_swap:
  assumes kp: "keypoints pd = Some kps"
    and mv: "movement = ''squat'' \<or> movement = ''bench''"
    and req: "hasRequiredPoints movement kps"
  shows "\<exists>v. detail ''symmetry'' (analyze rnd movement (Some pd)) = Some v \<and>
             detail ''symmetry''
               (analyze rnd' movement (Some (pd\<lparr>keypoints := Some (swapLeftRight kps)\<rparr>))) =
             Some v"
proof -
  let ?pd' = "pd\<lparr>keypoints := Some (swapLeftRight kps)\<rparr>"
  have kp': "keypoints ?pd' = Some (swapLeftRight kps)" by simp
  from mv show ?thesis
  proof
    assume m: "movement = ''squat''"
    with req have "list_all (\<lambda>point. kps point \<noteq> None) squat_requiredPoints"
      by (simp add: hasRequiredPoints_def requiredPoints_def)
    then obtain lh rh lk rk la ra where
      l: "kps ''leftHip'' = Some lh" "kps ''rightHip'' = Some rh"
         "kps ''leftKnee'' = Some lk" "kps ''rightKnee'' = Some rk"
         "kps ''leftAnkle'' = Some la" "kps ''rightAnkle'' = Some ra"
      unfolding required_squat by blast
    have l': "swapLeftRight kps ''leftHip'' = Some rh" "swapLeftRight kps ''rightHip'' = Some lh"
         "swapLeftRight kps ''leftKnee'' = Some rk" "swapLeftRight kps ''rightKnee'' = Some lk"
         "swapLeftRight kps ''leftAnkle'' = Some ra" "swapLeftRight kps ''rightAnkle'' = Some la"
      by (simp_all add: swapLeftRight_lookup l)
    from analyzeSquat_complete[OF kp l]
    have a: "detail ''symmetry'' (analyzeSquat pd) = Some (squat_asymmetry lh rh lk rk)"
      by (auto simp: detail_def)
    from analyzeSquat_complete[OF kp' l']
    have b: "detail ''symmetry'' (analyzeSquat ?pd') = Some (squat_asymmetry rh lh rk lk)"
      by (auto simp: detail_def)
    from a b show ?thesis
      by (simp add: analyze_def kp m squat_asymmetry_swap)
  next
    assume m: "movement = ''bench''"
    with req have "list_all (\<lambda>point. kps point \<noteq> None) bench_requiredPoints"
      by (simp add: hasRequiredPoints_def requiredPoints_def)
    then obtain ls rs le re lw rw where
      l: "kps ''leftShoulder'' = Some ls" "kps ''rightShoulder'' = Some rs"
         "kps ''leftElbow'' = Some le" "kps ''rightElbow'' = Some re"
         "kps ''leftWrist'' = Some lw" "kps ''rightWrist'' = Some rw"
      unfolding required_bench by blast
    have l': "swapLeftRight kps ''leftShoulder'' = Some rs"
         "swapLeftRight kps ''rightShoulder'' = Some ls"
         "swapLeftRight kps ''leftElbow'' = Some re" "swapLeftRight kps ''rightElbow'' = Some le"
         "swapLeftRight kps ''leftWrist'' = Some rw" "swapLeftRight kps ''rightWrist'' = Some lw"
      by (simp_all add: swapLeftRight_lookup l)
    from analyzeBench_complete[OF kp l, of rnd]
    have a: "detail ''symmetry'' (analyzeBench rnd pd) = Some (bench_asymmetry ls rs lw rw)"
      by (auto simp: detail_def)
    from analyzeBench_complete[OF kp' l', of rnd']
    have b: "detail ''symmetry'' (analyzeBench rnd' ?pd') = Some (bench_asymmetry rs ls rw lw)"
      by (auto simp: detail_def)
    from a b show ?thesis
      by (simp add: analyze_def kp m bench_asymmetry_swap)
  qed
qed

text \<open>Scenario A and its mirror image.\<close>

theorem symmetry_invariant_under_label_swap_witness:
  "hasRequiredPoints ''squat'' (map_of scenarioA) \<and>
   detail ''symmetry'' (analyze (1 / 2) ''squat'' (Some (frame scenarioA))) = Some (Num 0) \<and>
   detail ''symmetry''
     (analyze (1 / 2) ''squat''
        (Some ((frame scenarioA)\<lparr>keypoints := Some (swapLeftRight (map_of scenarioA))\<rparr>))) =
     Some (Num 0)"
proof -
  have h: "hasRequiredPoints ''squat'' (map_of scenarioA)"
    using scenarioA_required by (simp add: hasRequiredPoints_def requiredPoints_def)
  have a: "detail ''symmetry'' (analyze (1 / 2) ''squat'' (Some (frame scenarioA))) =
             Some (Num 0)"
    by (simp add: analyze_def frame_keypoints scenarioA_squat[simplified] detail_def)
  from symmetry_invariant_under_label_swap[where movement = "''squat''" and rnd = "1 / 2"
      and rnd' = "1 / 2", OF frame_keypoints _ h]
    a h show ?thesis by auto
qed

text \<open>
  C9 as first stated fails at the threshold: on a frame whose shoulders are at \<open>x = 0.03\<close>
  and \<open>x = 0.87\<close> and whose hips are at \<open>x = 0.4\<close> and \<open>x = 0.6\<close>, the offset between
  the two centers is \<open>0.05\<close> in decimal arithmetic and, in exact arithmetic on the
  binary64 coordinates of the frame, the binary64 number \<open>0.05\<close> itself, which is above
  the real number \<open>0.05\<close>: in either reading it is not strictly below 0.05. The sum
  \<open>0.03 + 0.87\<close> is rounded down, the evaluator computes the offset
  \<open>0.04999999999999999\<close>, and \<open>repCompleted\<close> is true.
\<close>

theorem offset_at_threshold_completes_rep:
  "map_option repCompleted
     (returned (analyze (1 / 2) ''deadlift'' (Some (frame offsetBoundary)))) =
     Some (Some True) \<and>
   exact_offset (map_of offsetBoundary) = Some (3602879701896397 / 72057594037927936) \<and>
   lit 0.05 = Num (3602879701896397 / 72057594037927936) \<and>
   \<not> exact_torso_upright (map_of offsetBoundary)"
proof -
  from analyzeDeadlift_complete[OF frame_keypoints offsetBoundary_lookup]
  have "map_option repCompleted (returned (analyzeDeadlift (frame offsetBoundary))) =
          Some (Some True)"
    by (auto simp: returned_def offsetBoundary_offset[simplified] js_lt_def
        lit_values[simplified])
  then show ?thesis
    by (simp add: analyze_def frame_keypoints exact_torso_upright_def offsetBoundary_exact
        lit_values[simplified])
qed

text \<open>
  C9, as amended. For a deadlift frame with the required landmarks, \<open>repCompleted\<close> is
  true exactly when the horizontal offset between the shoulder center and the hip
  center, as the evaluator computes it in binary64 arithmetic (each center is the rounded
  sum of the two coordinates, halved; the offset is the absolute value of the rounded
  difference of the centers), is strictly below the binary64 number \<open>0.05\<close>.
\<close>

theorem deadlift_rep_iff_computed_offset_below:
  assumes kp: "keypoints pd = Some kps"
    and l: "kps ''leftShoulder'' = Some ls" "kps ''rightShoulder'' = Some rs"
       "kps ''leftHip'' = Some lh" "kps ''rightHip'' = Some rh"
       "kps ''leftKnee'' = Some lk" "kps ''rightKnee'' = Some rk"
  shows "\<exists>r. analyze rnd ''deadlift'' (Some pd) = Inr r \<and>
             repCompleted r = Some (js_lt (torso_offset ls rs lh rh) (lit 0.05))"
  using analyzeDeadlift_complete[OF kp l]
  by (auto simp: analyze_def kp)

text \<open>The deadlift frame with the shoulders straight above the hips, and the frame with
  the shoulders level with the hips on their left.\<close>

theorem deadlift_rep_iff_computed_offset_below_witness:
  "torso_offset (pt 0.5 0.25) (pt 0.5 0.25) (pt 0.5 0.5) (pt 0.5 0.5) = Num 0 \<and>
   map_option repCompleted
     (returned (analyze (1 / 2) ''deadlift'' (Some (frame (deadliftFrame 0.5 0.25))))) =
     Some (Some True) \<and>
   torso_offset (pt 0.25 0.5) (pt 0.25 0.5) (pt 0.5 0.5) (pt 0.5 0.5) = Num 0.25 \<and>
   map_option repCompleted
     (returned (analyze (1 / 2) ''deadlift'' (Some (frame (deadliftFrame 0.25 0.5))))) =
     Some (Some False)"
  using deadlift_rep_iff_computed_offset_below[where pd = "frame (deadliftFrame 0.5 0.25)"
      and rnd = "1 / 2", OF frame_keypoints deadliftFrame_lookup(1-6)]
    deadlift_rep_iff_computed_offset_below[where pd = "frame (deadliftFrame 0.25 0.5)"
      and rnd = "1 / 2", OF frame_keypoints deadliftFrame_lookup(1-6)]
  by (auto simp: returned_def upright_offset[simplified] levelLeft_offset[simplified]
      js_lt_def lit_values[simplified])

text \<open>
  C10 as first stated fails: with shoulders and hips level and the shoulders on the left
  of the hips, the back angle is 180 and the evaluator emits the back-rounding error
  instead of \<open>Good back position!\<close>.
\<close>

theorem level_torso_facing_left_is_penalised:
  "analyze (1 / 2) ''deadlift'' (Some (frame (deadliftFrame 0.25 0.5))) =
     Inr \<lparr>score = Num 70,
          feedback = [''Excellent hip hinge pattern!''],
          errors = [''Back rounding detected - keep your back straight''],
          repCompleted = Some False,
          details = Some [(''backAngle'', Num 180), (''hipHinge'', Num 0.25)]\<rparr>"
  by (simp add: analyze_def frame_keypoints levelLeft_deadlift[simplified])

text \<open>
  C10, as amended. For a deadlift frame with the required landmarks whose shoulder
  center and hip center, as the evaluator computes them in binary64 arithmetic, are
  finite: when the shoulder center is straight above the hip center (equal x, smaller y)
  the back angle has absolute value 90, the back-rounding error is emitted and 30 is
  subtracted; when the two centers are level (equal y), a shoulder center to the right
  of the hip center (larger x) gives the angle 0, the feedback \<open>Good back position!\<close>
  and no back penalty, and a shoulder center to the left of the hip center (smaller x)
  gives the angle 180, the back-rounding error and the penalty of 30.
\<close>

theorem deadlift_back_angle_upright_and_level:
  assumes kp: "keypoints pd = Some kps"
    and l: "kps ''leftShoulder'' = Some ls" "kps ''rightShoulder'' = Some rs"
       "kps ''leftHip'' = Some lh" "kps ''rightHip'' = Some rh"
       "kps ''leftKnee'' = Some lk" "kps ''rightKnee'' = Some rk"
    and sx: "fin (center (kp_x ls) (kp_x rs)) = Some sx"
    and hx: "fin (center (kp_x lh) (kp_x rh)) = Some hx"
    and sy: "fin (center (kp_y ls) (kp_y rs)) = Some sy"
    and hy: "fin (center (kp_y lh) (kp_y rh)) = Some hy"
  shows "\<exists>r. analyze rnd ''deadlift'' (Some pd) = Inr r \<and>
           (sx = hx \<and> sy < hy \<longrightarrow>
              detail ''backAngle'' (Inr r) = Some (Num 90) \<and>
              ''Back rounding detected - keep your back straight'' \<in> set (errors r) \<and>
              score r = Num (100 - 30 - deadlift_other_penalties kps lh rh lk rk)) \<and>
           (sy = hy \<and> hx < sx \<longrightarrow>
              detail ''backAngle'' (Inr r) = Some (Num 0) \<and>
              ''Good back position!'' \<in> set (feedback r) \<and>
              score r = Num (100 - deadlift_other_penalties kps lh rh lk rk)) \<and>
           (sy = hy \<and> sx < hx \<longrightarrow>
              detail ''backAngle'' (Inr r) = Some (Num 180) \<and>
              ''Back rounding detected - keep your back straight'' \<in> set (errors r) \<and>
              score r = Num (100 - 30 - deadlift_other_penalties kps lh rh lk rk))"
proof -
  have an: "analyze rnd ''deadlift'' (Some pd) = analyzeDeadlift pd"
    by (simp add: analyze_def kp)
  consider (up) "sx = hx" "sy < hy" | (right) "sy = hy" "hx < sx" | (left) "sy = hy" "sx < hx"
    | (other) "\<not> (sx = hx \<and> sy < hy)" "\<not> (sy = hy \<and> hx < sx)" "\<not> (sy = hy \<and> sx < hx)"
    by blast
  then show ?thesis
  proof cases
    case up
    have "Math_abs (deadlift_backAngle ls rs lh rh) = Num 90"
      using backAngle_upright[OF sx _ sy hy up(2)] hx up(1) by simp
    from analyzeDeadlift_back[OF kp l this] up show ?thesis
      unfolding an by auto
  next
    case right
    have "Math_abs (deadlift_backAngle ls rs lh rh) = Num 0"
      using backAngle_level_right[OF sx hx sy _ right(2)] hy right(1) by simp
    from analyzeDeadlift_back[OF kp l this] right show ?thesis
      unfolding an by auto
  next
    case left
    have "Math_abs (deadlift_backAngle ls rs lh rh) = Num 180"
      using backAngle_level_left[OF sx hx sy _ left(2)] hy left(1) by simp
    from analyzeDeadlift_back[OF kp l this] left show ?thesis
      unfolding an by auto
  next
    case other
    from analyzeDeadlift_score[OF kp l] obtain r where "analyzeDeadlift pd = Inr r" by blast
    with other show ?thesis unfolding an by blast
  qed
qed

text \<open>The three deadlift frames: upright, level to the right, level to the left.\<close>

theorem deadlift_back_angle_upright_and_level_witness:
  "(\<exists>r. analyze (1 / 2) ''deadlift'' (Some (frame (deadliftFrame 0.5 0.25))) = Inr r \<and>
        detail ''backAngle'' (Inr r) = Some (Num 90) \<and>
        ''Back rounding detected - keep your back straight'' \<in> set (errors r) \<and>
        score r = Num 70) \<and>
   (\<exists>r. analyze (1 / 2) ''deadlift'' (Some (frame (deadliftFrame 0.75 0.5))) = Inr r \<and>
        detail ''backAngle'' (Inr r) = Some (Num 0) \<and>
        ''Good back position!'' \<in> set (feedback r) \<and>
        score r = Num 100) \<and>
   (\<exists>r. analyze (1 / 2) ''deadlift'' (Some (frame (deadliftFrame 0.25 0.5))) = Inr r \<and>
        detail ''backAngle'' (Inr r) = Some (Num 180) \<and>
        ''Back rounding detected - keep your back straight'' \<in> set (errors r) \<and>
        score r = Num 70)"
  using deadlift_back_angle_upright_and_level[where pd = "frame (deadliftFrame 0.5 0.25)"
          and rnd = "1 / 2", OF frame_keypoints deadliftFrame_lookup(1-6)
          deadliftFrame_centers(2,2,4,5)]
    deadlift_back_angle_upright_and_level[where pd = "frame (deadliftFrame 0.75 0.5)"
          and rnd = "1 / 2", OF frame_keypoints deadliftFrame_lookup(1-6)
          deadliftFrame_centers(3,2,5,5)]
    deadlift_back_angle_upright_and_level[where pd = "frame (deadliftFrame 0.25 0.5)"
          and rnd = "1 / 2", OF frame_keypoints deadliftFrame_lookup(1-6)
          deadliftFrame_centers(1,2,5,5)]
  by (simp add: deadliftFrame_other_penalties[simplified])

end
